theory Spec2Isabelle
  imports
    Main
    "HOL-Library.Word"
    "HOL-Library.AList"
    "HOL-Library.List_Lexorder"
    "HOL-Library.Char_ord"
begin

section \<open>Go strings and the standard-library functions the generator calls\<close>

text \<open>
  A Go \<open>string\<close> is a sequence of bytes; it is modelled as a \<^typ>\<open>string\<close>, a list of
  8-bit characters. Indexing (\<open>word[0]\<close>), slicing (\<open>word[1:]\<close>), comparison and
  \<open>sort.Strings\<close> all work on bytes, and so do \<^const>\<open>hd\<close>, \<^const>\<open>tl\<close> and the
  lexicographic order on \<^typ>\<open>string\<close> used here.
\<close>

definition isASCII :: "string \<Rightarrow> bool" where
  "isASCII s = list_all (\<lambda>c. (of_char c :: nat) < 128) s"

definition upperByte :: "char \<Rightarrow> char" where
  "upperByte c = (if CHR ''a'' \<le> c \<and> c \<le> CHR ''z'' then char_of (of_char c - (32::nat)) else c)"

definition lowerByte :: "char \<Rightarrow> char" where
  "lowerByte c = (if CHR ''A'' \<le> c \<and> c \<le> CHR ''Z'' then char_of (of_char c + (32::nat)) else c)"

text \<open>
  \<open>strings.ToUpper\<close> and \<open>strings.ToLower\<close> have a fast path for strings of ASCII bytes
  only, which maps \<open>a..z\<close> to \<open>A..Z\<close> (or back) byte by byte, and otherwise call
  \<open>strings.Map\<close> with the Unicode case tables. The tables belong to the Go standard
  library, not to this repository: the slow path is a parameter of the model.
\<close>

record unicode =
  MapToUpper :: "string \<Rightarrow> string"
  MapToLower :: "string \<Rightarrow> string"

definition ToUpper :: "unicode \<Rightarrow> string \<Rightarrow> string" where
  "ToUpper uc s = (if isASCII s then map upperByte s else MapToUpper uc s)"

definition ToLower :: "unicode \<Rightarrow> string \<Rightarrow> string" where
  "ToLower uc s = (if isASCII s then map lowerByte s else MapToLower uc s)"

text \<open>
  The conversion \<open>string(b)\<close> of a byte \<open>b\<close>: Go converts an integer to the UTF-8
  encoding of the code point of that number, one byte below \<open>0x80\<close> and two bytes
  from \<open>0x80\<close> to \<open>0xFF\<close>.
\<close>

definition string_of_byte :: "char \<Rightarrow> string" where
  "string_of_byte b =
     (let n = (of_char b :: nat)
      in if n < 128 then [b] else [char_of (192 + n div 64), char_of (128 + n mod 64)])"

text \<open>
  \<open>strings.FieldsFunc(s, f)\<close> splits \<open>s\<close> at each run of code points satisfying \<open>f\<close>
  and returns the non-empty pieces. The generator's \<open>f\<close> accepts three ASCII
  characters, and an ASCII byte is never part of a longer UTF-8 sequence, so the
  split is the same byte by byte. \<open>cur\<close> is the piece being read.
\<close>

fun fieldsFrom :: "(char \<Rightarrow> bool) \<Rightarrow> string \<Rightarrow> string \<Rightarrow> string list" where
  "fieldsFrom f cur [] = (if cur = [] then [] else [cur])"
| "fieldsFrom f cur (c # cs) =
     (if f c then (if cur = [] then fieldsFrom f [] cs else cur # fieldsFrom f [] cs)
      else fieldsFrom f (cur @ [c]) cs)"

definition FieldsFunc :: "string \<Rightarrow> (char \<Rightarrow> bool) \<Rightarrow> string list" where
  "FieldsFunc s f = fieldsFrom f [] s"

text \<open>\<open>strings.Join(elems, sep)\<close>.\<close>

fun Join :: "string list \<Rightarrow> string \<Rightarrow> string" where
  "Join [] sep = []"
| "Join [x] sep = x"
| "Join (x # y # ys) sep = x @ sep @ Join (y # ys) sep"

text \<open>
  \<open>strings.Split(s, sep)\<close> for a separator of one byte (the generator passes \<open>"/"\<close>):
  the pieces between the separators, empty ones included; never an empty list.
\<close>

fun splitFrom :: "char \<Rightarrow> string \<Rightarrow> string \<Rightarrow> string list" where
  "splitFrom sep cur [] = [cur]"
| "splitFrom sep cur (c # cs) =
     (if c = sep then cur # splitFrom sep [] cs else splitFrom sep (cur @ [c]) cs)"

definition Split :: "string \<Rightarrow> char \<Rightarrow> string list" where
  "Split s sep = splitFrom sep [] s"

text \<open>\<open>strings.ReplaceAll(s, old, new)\<close> for \<open>old\<close> and \<open>new\<close> of one byte each.\<close>

definition ReplaceAll :: "string \<Rightarrow> char \<Rightarrow> char \<Rightarrow> string" where
  "ReplaceAll s old new = map (\<lambda>c. if c = old then new else c) s"

section \<open>Naming engine (\<open>cmd/clientgen/openapi.go\<close>)\<close>

definition isSeparator :: "char \<Rightarrow> bool" where
  "isSeparator c = (c = CHR ''_'' \<or> c = CHR ''-'' \<or> c = CHR '' '')"

text \<open>
  The body of the loop over \<open>words\<close>:
  \<open>strings.ToUpper(string(word[0])) + strings.ToLower(word[1:])\<close> for a word that is
  not empty.
\<close>

definition capitalize :: "unicode \<Rightarrow> string \<Rightarrow> string" where
  "capitalize uc word =
     (case word of
        [] \<Rightarrow> word
      | b # rest \<Rightarrow> ToUpper uc (string_of_byte b) @ ToLower uc rest)"

text \<open>
  What \<open>capitalize\<close> comes to on a word of ASCII bytes, where the Unicode tables are
  never consulted (used to state the properties below).
\<close>

definition capitalizeASCII :: "string \<Rightarrow> string" where
  "capitalizeASCII w = (case w of [] \<Rightarrow> [] | b # rest \<Rightarrow> upperByte b # map lowerByte rest)"

definition toPascalCase :: "unicode \<Rightarrow> string \<Rightarrow> string" where
  "toPascalCase uc s =
     (if s = [] then []
      else let words = FieldsFunc s isSeparator;
               words = map (capitalize uc) words
           in Join words [])"

definition toCamelCase :: "unicode \<Rightarrow> string \<Rightarrow> string" where
  "toCamelCase uc s =
     (if s = [] then []
      else case toPascalCase uc s of
             [] \<Rightarrow> []
           | b # rest \<Rightarrow> ToLower uc (string_of_byte b) @ rest)"

section \<open>Specification model (\<open>cmd/clientgen/openapi.go\<close>)\<close>

text \<open>
  The structs of the parsed OpenAPI document. A Go map is a list of key-value pairs
  with distinct keys; the order of the list stands for the order in which \<open>range\<close>
  happens to visit the map, which Go leaves unspecified. A pointer that may be \<open>nil\<close>
  is an \<^typ>\<open>'a option\<close>. The parameter \<open>'i\<close> is the type of the values that the YAML
  decoder stores in an \<open>interface{}\<close>.
\<close>

type_synonym ('k, 'v) gomap = "('k \<times> 'v) list"

record Info =
  Title :: string
  Description :: string
  Version :: string

record Server =
  URL :: string

datatype 'i Schema = Schema
  (Type: string)
  (Format: string)
  (Description: string)
  (Properties: "(string, 'i Schema) gomap")
  (Items: "'i Schema option")
  (Enum: "'i list")
  (Required: "string list")
  (Ref: string)
  (Example: "'i option")
  (AllOf: "'i Schema list")
  (OneOf: "'i Schema list")
  (AnyOf: "'i Schema list")

record 'i Parameter =
  Name :: string
  In :: string
  Description :: string
  Required :: bool
  Schema :: "'i Schema option"

record 'i MediaType =
  Schema :: "'i Schema option"

record 'i RequestBody =
  Description :: string
  Required :: bool
  Content :: "(string, 'i MediaType) gomap"

record 'i Response =
  Description :: string
  Content :: "(string, 'i MediaType) gomap"

record 'i Operation =
  OperationID :: string
  Summary :: string
  Description :: string
  Tags :: "string list"
  Parameters :: "'i Parameter list"
  RequestBody :: "'i RequestBody option"
  Responses :: "(string, 'i Response) gomap"

record 'i PathItem =
  Get :: "'i Operation option"
  Post :: "'i Operation option"
  Put :: "'i Operation option"
  Delete :: "'i Operation option"

record 'i Components =
  Schemas :: "(string, 'i Schema) gomap"

record 'i OpenAPISpec =
  OpenAPI :: string
  Info :: Info
  Servers :: "Server list"
  Paths :: "(string, 'i PathItem) gomap"
  Components :: "'i Components"

section \<open>Type resolver (\<open>Schema.GoType\<close>)\<close>

text \<open>
  The loop over \<open>s.AllOf\<close>: the reference of the first member whose \<open>$ref\<close> is not
  empty, if there is one.
\<close>

fun firstRef :: "'i Schema list \<Rightarrow> string option" where
  "firstRef [] = None"
| "firstRef (schema # rest) = (if Schema.Ref schema \<noteq> [] then Some (Schema.Ref schema) else firstRef rest)"

text \<open>The name a reference resolves to: \<open>parts[len(parts)-1]\<close> in PascalCase.\<close>

definition refTypeName :: "unicode \<Rightarrow> string \<Rightarrow> string" where
  "refTypeName uc ref = (let parts = Split ref CHR ''/'' in toPascalCase uc (last parts))"

text \<open>
  \<open>GoType\<close> and the \<open>switch s.Type\<close> that ends it. The \<open>switch\<close> is a function of its
  own here, \<open>typeSwitch\<close>, so that the claims can name it; the two are one recursion.
\<close>

fun GoType :: "unicode \<Rightarrow> 'i Schema \<Rightarrow> string"
  and typeSwitch :: "unicode \<Rightarrow> 'i Schema \<Rightarrow> string" where
  "GoType uc (Schema.Schema ty fmt desc props items enum req ref ex allOf oneOf anyOf) =
     (if ref \<noteq> [] then refTypeName uc ref
      else case (if length allOf > 0 then firstRef allOf else None) of
             Some r \<Rightarrow> refTypeName uc r
           | None \<Rightarrow> typeSwitch uc (Schema.Schema ty fmt desc props items enum req ref ex allOf oneOf anyOf))"
| "typeSwitch uc (Schema.Schema ty fmt desc props items enum req ref ex allOf oneOf anyOf) =
     (if ty = ''string'' then
        (if length enum > 0 then ''string''
         else if fmt = ''date-time'' then ''DateTime''
         else if fmt = ''date'' then ''Date''
         else ''string'')
      else if ty = ''integer'' then
        (if fmt = ''int32'' then ''int32''
         else if fmt = ''int64'' then ''int64''
         else ''int'')
      else if ty = ''number'' then
        (if fmt = ''float'' then ''float32''
         else if fmt = ''double'' then ''float64''
         else ''float64'')
      else if ty = ''boolean'' then ''bool''
      else if ty = ''array'' then
        (case items of
           Some it \<Rightarrow> ''[]'' @ GoType uc it
         | None \<Rightarrow> ''[]interface{}'')
      else if ty = ''object'' then
        (if length props = 0 then ''map[string]interface{}'' else ''interface{}'')
      else ''interface{}'')"

definition IsRequired :: "'i Schema \<Rightarrow> string \<Rightarrow> bool" where
  "IsRequired s fieldName = list_ex (\<lambda>req. req = fieldName) (Schema.Required s)"

section \<open>Traversal order and method names\<close>

text \<open>
  \<open>GetSortedSchemas\<close> and \<open>GetSortedPaths\<close> append the keys in the order \<open>range\<close>
  visits them and sort the result with \<open>sort.Strings\<close>, which orders strings by
  their bytes.
\<close>

definition GetSortedSchemas :: "'i OpenAPISpec \<Rightarrow> string list" where
  "GetSortedSchemas spec =
     (let names = foldl (\<lambda>names (name, _). names @ [name]) [] (Schemas (Components spec))
      in sort names)"

definition GetSortedPaths :: "'i OpenAPISpec \<Rightarrow> string list" where
  "GetSortedPaths spec =
     (let paths = foldl (\<lambda>paths (path, _). paths @ [path]) [] (Paths spec)
      in sort paths)"

definition GetMethodName :: "unicode \<Rightarrow> 'i Operation \<Rightarrow> string" where
  "GetMethodName uc op =
     (if OperationID op \<noteq> [] then toPascalCase uc (ReplaceAll (OperationID op) CHR ''-'' CHR ''_'')
      else ''UnknownOperation'')"

section \<open>The client (\<open>client.go\<close>)\<close>

subsection \<open>Errors and formatting\<close>

text \<open>
  A Go \<open>error\<close> is its message and the error it wraps, if any. \<open>Errorf_w\<close> is
  \<open>fmt.Errorf(prefix + "%w", err)\<close>; \<open>Errorf_API\<close> is
  \<open>fmt.Errorf("API error %d: %s", code, body)\<close>. A method that returns
  \<open>(result, error)\<close> returns \<open>Inl\<close> of the error with a \<open>nil\<close> result, or \<open>Inr\<close> of
  the result with a \<open>nil\<close> error.
\<close>

datatype error = Error (Message: string) (Unwrap: "error option")

definition Errorf_w :: "string \<Rightarrow> error \<Rightarrow> error" where
  "Errorf_w prefix err = Error (prefix @ Message err) (Some err)"

text \<open>The verb \<open>%d\<close>: decimal digits, with a minus sign for a negative number.\<close>

fun decimal :: "nat \<Rightarrow> string" where
  "decimal n =
     (if n < 10 then [''0123456789'' ! n]
      else decimal (n div 10) @ [''0123456789'' ! (n mod 10)])"

declare decimal.simps [simp del]

definition Sprintf_d :: "int \<Rightarrow> string" where
  "Sprintf_d i = (if i < 0 then CHR ''-'' # decimal (nat (- i)) else decimal (nat i))"

definition Errorf_API :: "int \<Rightarrow> string \<Rightarrow> error" where
  "Errorf_API code body = Error (''API error '' @ Sprintf_d code @ '': '' @ body) None"

text \<open>\<open>fmt.Sprintf("%v", v)\<close> for \<open>v\<close> of a built-in type.\<close>

definition Sprintf_v_string :: "string \<Rightarrow> string" where
  "Sprintf_v_string v = v"

definition Sprintf_v_int :: "64 word \<Rightarrow> string" where
  "Sprintf_v_int v = Sprintf_d (sint v)"

definition Sprintf_v_int32 :: "32 word \<Rightarrow> string" where
  "Sprintf_v_int32 v = Sprintf_d (sint v)"

definition Sprintf_v_bool :: "bool \<Rightarrow> string" where
  "Sprintf_v_bool v = (if v then ''true'' else ''false'')"

subsection \<open>Query parameters (\<open>net/url\<close>)\<close>

text \<open>
  \<open>url.Values\<close> is a \<open>map[string][]string\<close>: here a list of pairs with distinct keys.
  \<open>valuesOf v key\<close> is \<open>v[key]\<close>, which is \<open>nil\<close> for a key that is absent.
\<close>

type_synonym Values = "(string, string list) gomap"

definition valuesOf :: "Values \<Rightarrow> string \<Rightarrow> string list" where
  "valuesOf v key = (case map_of v key of None \<Rightarrow> [] | Some vs \<Rightarrow> vs)"

definition Set :: "Values \<Rightarrow> string \<Rightarrow> string \<Rightarrow> Values" where
  "Set v key val = AList.update key [val] v"

definition Add :: "Values \<Rightarrow> string \<Rightarrow> string \<Rightarrow> Values" where
  "Add v key val = AList.update key (valuesOf v key @ [val]) v"

text \<open>
  \<open>url.QueryEscape\<close>: letters, digits and \<open>- _ . ~\<close> stay, a space becomes \<open>+\<close>, any
  other byte becomes \<open>%\<close> and its two hexadecimal digits in upper case.
\<close>

definition shouldEscape :: "char \<Rightarrow> bool" where
  "shouldEscape c =
     (if (CHR ''a'' \<le> c \<and> c \<le> CHR ''z'') \<or> (CHR ''A'' \<le> c \<and> c \<le> CHR ''Z'')
          \<or> (CHR ''0'' \<le> c \<and> c \<le> CHR ''9'') then False
      else if c = CHR ''-'' \<or> c = CHR ''_'' \<or> c = CHR ''.'' \<or> c = CHR ''~'' then False
      else True)"

definition escapeByte :: "char \<Rightarrow> string" where
  "escapeByte c =
     (if c = CHR '' '' then ''+''
      else if shouldEscape c then
        [CHR ''%'', ''0123456789ABCDEF'' ! ((of_char c :: nat) div 16),
         ''0123456789ABCDEF'' ! ((of_char c :: nat) mod 16)]
      else [c])"

definition QueryEscape :: "string \<Rightarrow> string" where
  "QueryEscape s = concat (map escapeByte s)"

text \<open>
  \<open>Values.Encode\<close>: the keys sorted, and for each key each of its values in order,
  written to the buffer as \<open>key=value\<close> with \<open>&\<close> before every pair but the first.
\<close>

definition writePair :: "string \<Rightarrow> string \<Rightarrow> string \<Rightarrow> string" where
  "writePair keyEscaped buf val =
     (let buf = (if length buf > 0 then buf @ ''&'' else buf)
      in buf @ keyEscaped @ ''='' @ QueryEscape val)"

definition Encode :: "Values \<Rightarrow> string" where
  "Encode v =
     (if length v = 0 then []
      else let keys = sort (map fst v)
           in foldl (\<lambda>buf k. foldl (writePair (QueryEscape k)) buf (valuesOf v k)) [] keys)"

text \<open>
  The two statements the generated methods are made of, for an optional field \<open>x\<close> with
  the wire key \<open>key\<close>:
  \<open>if x != nil { queryParams.Set(key, fmt.Sprintf("%v", *x)) }\<close> and
  \<open>if x != nil { for _, v := range *x { queryParams.Add(key, fmt.Sprintf("%v", v)) } }\<close>.
\<close>

definition setIf :: "Values \<Rightarrow> string \<Rightarrow> ('a \<Rightarrow> string) \<Rightarrow> 'a option \<Rightarrow> Values" where
  "setIf queryParams key sprintf x =
     (case x of None \<Rightarrow> queryParams | Some v \<Rightarrow> Set queryParams key (sprintf v))"

definition addEach ::
  "Values \<Rightarrow> string \<Rightarrow> ('a \<Rightarrow> string) \<Rightarrow> 'a list option \<Rightarrow> Values" where
  "addEach queryParams key sprintf x =
     (case x of
        None \<Rightarrow> queryParams
      | Some vs \<Rightarrow> foldl (\<lambda>queryParams v. Add queryParams key (sprintf v)) queryParams vs)"

subsection \<open>Requests and responses (\<open>net/http\<close>)\<close>

text \<open>
  The body of a response is a stream. The model keeps of it what \<open>io.ReadAll\<close>
  returns: the bytes it read, and the error that ended the read if that was not the
  end of the stream. The transport \<open>httpClient\<close> of a client is its method \<open>Do\<close>.
\<close>

type_synonym body = "string \<times> error option"

definition ReadAll :: "body \<Rightarrow> string \<times> error option" where
  "ReadAll r = r"

record http_Request =
  Method :: string
  RawURL :: string

record http_Response =
  StatusCode :: int
  Body :: body

record Client =
  baseURL :: string
  httpClient :: "http_Request \<Rightarrow> error + http_Response"

text \<open>
  What the methods use and neither this repository's files nor the model define:
  \<open>http.NewRequest(method, url, nil)\<close>, which fails on a URL it cannot parse, and
  \<open>fmt.Sprintf("%v", v)\<close> for \<open>v\<close> of one of the named types of \<open>types.go\<close> (\<open>Date\<close>,
  \<open>LawType\<close>, \<open>CategoryCd\<close> and the others). \<open>types.go\<close> is not among the sources:
  \<open>'t\<close> is the type of the values of its named types. The JSON decoder of a method,
  \<open>json.NewDecoder(resp.Body).Decode(&result)\<close>, is the argument \<open>Decode\<close> of that
  method.
\<close>

record 't golib =
  NewRequest :: "string \<Rightarrow> string \<Rightarrow> error + http_Request"
  Sprintf_v :: "'t \<Rightarrow> string"

subsection \<open>Parameter structs\<close>

record GetAttachmentParams =
  Src :: "string option"

record 't GetKeywordParams =
  Keyword :: string
  LawNum :: "string option"
  LawNumEra :: "'t option"
  LawNumNum :: "string option"
  LawNumType :: "'t option"
  LawNumYear :: "64 word option"
  LawType :: "'t list option"
  Asof :: "'t option"
  CategoryCd :: "'t list option"
  PromulgationDateFrom :: "'t option"
  PromulgationDateTo :: "'t option"
  Limit :: "32 word option"
  Offset :: "32 word option"
  Order :: "string option"
  ResponseFormat :: "'t option"
  SentencesLimit :: "32 word option"
  SentenceTextSize :: "32 word option"
  HighlightTag :: "string option"

record 't GetLawDataParams =
  LawFullTextFormat :: "'t option"
  Asof :: "'t option"
  Elm :: "'t option"
  OmitAmendmentSupplProvision :: "bool option"
  IncludeAttachedFileContent :: "bool option"
  ResponseFormat :: "'t option"

record 't GetLawFileParams =
  Asof :: "'t option"

record 't GetRevisionsParams =
  LawTitle :: "string option"
  LawTitleKana :: "string option"
  AmendmentDateFrom :: "'t option"
  AmendmentDateTo :: "'t option"
  AmendmentLawId :: "string option"
  AmendmentLawNum :: "string option"
  AmendmentLawTitle :: "string option"
  AmendmentLawTitleKana :: "string option"
  AmendmentPromulgateDateFrom :: "'t option"
  AmendmentPromulgateDateTo :: "'t option"
  AmendmentType :: "'t list option"
  CategoryCd :: "'t list option"
  CurrentRevisionStatus :: "'t list option"
  Mission :: "'t list option"
  RemainInForce :: "bool option"
  RepealDateFrom :: "'t option"
  RepealDateTo :: "'t option"
  RepealStatus :: "'t list option"
  UpdatedFrom :: "'t option"
  UpdatedTo :: "'t option"
  ResponseFormat :: "'t option"

record 't GetLawsParams =
  LawId :: "string option"
  LawNum :: "string option"
  LawNumEra :: "'t option"
  LawNumNum :: "string option"
  LawNumType :: "'t option"
  LawNumYear :: "64 word option"
  LawTitle :: "string option"
  LawTitleKana :: "string option"
  LawType :: "'t list option"
  AmendmentLawId :: "string option"
  Asof :: "'t option"
  CategoryCd :: "'t list option"
  Mission :: "'t list option"
  OmitCurrentRevisionInfo :: "bool option"
  PromulgationDateFrom :: "'t option"
  PromulgationDateTo :: "'t option"
  RepealStatus :: "'t list option"
  Limit :: "32 word option"
  Offset :: "32 word option"
  Order :: "string option"
  ResponseFormat :: "'t option"

subsection \<open>Methods\<close>

text \<open>
  Each method is in three parts: the query parameters it collects from a parameter
  struct that is not \<open>nil\<close>, the URL it builds, and the request with the handling
  of the response.
\<close>

definition GetAttachment_queryParams :: "'t golib \<Rightarrow> GetAttachmentParams \<Rightarrow> Values" where
  "GetAttachment_queryParams lib params =
     (let queryParams = [];
          queryParams = setIf queryParams ''src'' Sprintf_v_string
              (GetAttachmentParams.Src params)
      in queryParams)"

definition GetAttachment_urlPath ::
  "'t golib \<Rightarrow> Client \<Rightarrow> string \<Rightarrow> GetAttachmentParams option \<Rightarrow> string" where
  "GetAttachment_urlPath lib c lawRevisionId params =
     (let urlPath = baseURL c @ ''/attachment'' @ ''/'' @ lawRevisionId
      in case params of
           None \<Rightarrow> urlPath
         | Some params \<Rightarrow>
             let queryParams = GetAttachment_queryParams lib params
             in if length queryParams > 0 then urlPath @ ''?'' @ Encode queryParams
                else urlPath)"

definition GetAttachment ::
  "'t golib \<Rightarrow> Client \<Rightarrow> string \<Rightarrow> GetAttachmentParams option \<Rightarrow> error + string" where
  "GetAttachment lib c lawRevisionId params =
     (let urlPath = GetAttachment_urlPath lib c lawRevisionId params
      in case NewRequest lib ''GET'' urlPath of
           Inl err \<Rightarrow> Inl (Errorf_w ''failed to create request: '' err)
         | Inr req \<Rightarrow>
             case httpClient c req of
               Inl err \<Rightarrow> Inl (Errorf_w ''failed to execute request: '' err)
             | Inr resp \<Rightarrow>
               if StatusCode resp \<ge> 400 then
                 (let (body, _) = ReadAll (Body resp)
                  in Inl (Errorf_API (StatusCode resp) body))
               else case ReadAll (Body resp) of
                      (body, Some err) \<Rightarrow> Inl (Errorf_w ''failed to read response: '' err)
                    | (body, None) \<Rightarrow> Inr body)"

definition GetKeyword_queryParams :: "'t golib \<Rightarrow> 't GetKeywordParams \<Rightarrow> Values" where
  "GetKeyword_queryParams lib params =
     (let queryParams = [];
          queryParams = Set queryParams ''keyword'' (Sprintf_v_string
              (GetKeywordParams.Keyword params));
          queryParams = setIf queryParams ''law_num'' Sprintf_v_string
              (GetKeywordParams.LawNum params);
          queryParams = setIf queryParams ''law_num_era'' (Sprintf_v lib)
              (GetKeywordParams.LawNumEra params);
          queryParams = setIf queryParams ''law_num_num'' Sprintf_v_string
              (GetKeywordParams.LawNumNum params);
          queryParams = setIf queryParams ''law_num_type'' (Sprintf_v lib)
              (GetKeywordParams.LawNumType params);
          queryParams = setIf queryParams ''law_num_year'' Sprintf_v_int
              (GetKeywordParams.LawNumYear params);
          queryParams = addEach queryParams ''law_type'' (Sprintf_v lib)
              (GetKeywordParams.LawType params);
          queryParams = setIf queryParams ''asof'' (Sprintf_v lib) (GetKeywordParams.Asof params);
          queryParams = addEach queryParams ''category_cd'' (Sprintf_v lib)
              (GetKeywordParams.CategoryCd params);
          queryParams = setIf queryParams ''promulgation_date_from'' (Sprintf_v lib)
              (GetKeywordParams.PromulgationDateFrom params);
          queryParams = setIf queryParams ''promulgation_date_to'' (Sprintf_v lib)
              (GetKeywordParams.PromulgationDateTo params);
          queryParams = setIf queryParams ''limit'' Sprintf_v_int32
              (GetKeywordParams.Limit params);
          queryParams = setIf queryParams ''offset'' Sprintf_v_int32
              (GetKeywordParams.Offset params);
          queryParams = setIf queryParams ''order'' Sprintf_v_string
              (GetKeywordParams.Order params);
          queryParams = setIf queryParams ''response_format'' (Sprintf_v lib)
              (GetKeywordParams.ResponseFormat params);
          queryParams = setIf queryParams ''sentences_limit'' Sprintf_v_int32
              (GetKeywordParams.SentencesLimit params);
          queryParams = setIf queryParams ''sentence_text_size'' Sprintf_v_int32
              (GetKeywordParams.SentenceTextSize params);
          queryParams = setIf queryParams ''highlight_tag'' Sprintf_v_string
              (GetKeywordParams.HighlightTag params)
      in queryParams)"

definition GetKeyword_urlPath ::
  "'t golib \<Rightarrow> Client \<Rightarrow> 't GetKeywordParams option \<Rightarrow> string" where
  "GetKeyword_urlPath lib c params =
     (let urlPath = baseURL c @ ''/keyword''
      in case params of
           None \<Rightarrow> urlPath
         | Some params \<Rightarrow>
             let queryParams = GetKeyword_queryParams lib params
             in if length queryParams > 0 then urlPath @ ''?'' @ Encode queryParams
                else urlPath)"

definition GetKeyword ::
  "'t golib \<Rightarrow> (body \<Rightarrow> error + 'r) \<Rightarrow> Client \<Rightarrow> 't GetKeywordParams option \<Rightarrow> error + 'r" where
  "GetKeyword lib Decode c params =
     (let urlPath = GetKeyword_urlPath lib c params
      in case NewRequest lib ''GET'' urlPath of
           Inl err \<Rightarrow> Inl (Errorf_w ''failed to create request: '' err)
         | Inr req \<Rightarrow>
             case httpClient c req of
               Inl err \<Rightarrow> Inl (Errorf_w ''failed to execute request: '' err)
             | Inr resp \<Rightarrow>
               if StatusCode resp \<ge> 400 then
                 (let (body, _) = ReadAll (Body resp)
                  in Inl (Errorf_API (StatusCode resp) body))
               else case Decode (Body resp) of
                      Inl err \<Rightarrow> Inl (Errorf_w ''failed to decode response: '' err)
                    | Inr result \<Rightarrow> Inr result)"

definition GetLawData_queryParams :: "'t golib \<Rightarrow> 't GetLawDataParams \<Rightarrow> Values" where
  "GetLawData_queryParams lib params =
     (let queryParams = [];
          queryParams = setIf queryParams ''law_full_text_format'' (Sprintf_v lib)
              (GetLawDataParams.LawFullTextFormat params);
          queryParams = setIf queryParams ''asof'' (Sprintf_v lib) (GetLawDataParams.Asof params);
          queryParams = setIf queryParams ''elm'' (Sprintf_v lib) (GetLawDataParams.Elm params);
          queryParams = setIf queryParams ''omit_amendment_suppl_provision'' Sprintf_v_bool
              (GetLawDataParams.OmitAmendmentSupplProvision params);
          queryParams = setIf queryParams ''include_attached_file_content'' Sprintf_v_bool
              (GetLawDataParams.IncludeAttachedFileContent params);
          queryParams = setIf queryParams ''response_format'' (Sprintf_v lib)
              (GetLawDataParams.ResponseFormat params)
      in queryParams)"

definition GetLawData_urlPath ::
  "'t golib \<Rightarrow> Client \<Rightarrow> string \<Rightarrow> 't GetLawDataParams option \<Rightarrow> string" where
  "GetLawData_urlPath lib c lawIdOrNumOrRevisionId params =
     (let urlPath = baseURL c @ ''/law_data'' @ ''/'' @ lawIdOrNumOrRevisionId
      in case params of
           None \<Rightarrow> urlPath
         | Some params \<Rightarrow>
             let queryParams = GetLawData_queryParams lib params
             in if length queryParams > 0 then urlPath @ ''?'' @ Encode queryParams
                else urlPath)"

definition GetLawData ::
  "'t golib \<Rightarrow> (body \<Rightarrow> error + 'r) \<Rightarrow> Client \<Rightarrow> string \<Rightarrow> 't GetLawDataParams option \<Rightarrow> error + 'r" where
  "GetLawData lib Decode c lawIdOrNumOrRevisionId params =
     (let urlPath = GetLawData_urlPath lib c lawIdOrNumOrRevisionId params
      in case NewRequest lib ''GET'' urlPath of
           Inl err \<Rightarrow> Inl (Errorf_w ''failed to create request: '' err)
         | Inr req \<Rightarrow>
             case httpClient c req of
               Inl err \<Rightarrow> Inl (Errorf_w ''failed to execute request: '' err)
             | Inr resp \<Rightarrow>
               if StatusCode resp \<ge> 400 then
                 (let (body, _) = ReadAll (Body resp)
                  in Inl (Errorf_API (StatusCode resp) body))
               else case Decode (Body resp) of
                      Inl err \<Rightarrow> Inl (Errorf_w ''failed to decode response: '' err)
                    | Inr result \<Rightarrow> Inr result)"

definition GetLawFile_queryParams :: "'t golib \<Rightarrow> 't GetLawFileParams \<Rightarrow> Values" where
  "GetLawFile_queryParams lib params =
     (let queryParams = [];
          queryParams = setIf queryParams ''asof'' (Sprintf_v lib) (GetLawFileParams.Asof params)
      in queryParams)"

definition GetLawFile_urlPath ::
  "'t golib \<Rightarrow> Client \<Rightarrow> string \<Rightarrow> string \<Rightarrow> 't GetLawFileParams option \<Rightarrow> string" where
  "GetLawFile_urlPath lib c lawIdOrNumOrRevisionId fileType params =
     (let urlPath = baseURL c @ ''/law_file'' @ ''/'' @ fileType @ ''/'' @ lawIdOrNumOrRevisionId
      in case params of
           None \<Rightarrow> urlPath
         | Some params \<Rightarrow>
             let queryParams = GetLawFile_queryParams lib params
             in if length queryParams > 0 then urlPath @ ''?'' @ Encode queryParams
                else urlPath)"

definition GetLawFile ::
  "'t golib \<Rightarrow> Client \<Rightarrow> string \<Rightarrow> string \<Rightarrow> 't GetLawFileParams option \<Rightarrow> error + string" where
  "GetLawFile lib c lawIdOrNumOrRevisionId fileType params =
     (let urlPath = GetLawFile_urlPath lib c lawIdOrNumOrRevisionId fileType params
      in case NewRequest lib ''GET'' urlPath of
           Inl err \<Rightarrow> Inl (Errorf_w ''failed to create request: '' err)
         | Inr req \<Rightarrow>
             case httpClient c req of
               Inl err \<Rightarrow> Inl (Errorf_w ''failed to execute request: '' err)
             | Inr resp \<Rightarrow>
               if StatusCode resp \<ge> 400 then
                 (let (body, _) = ReadAll (Body resp)
                  in Inl (Errorf_API (StatusCode resp) body))
               else case ReadAll (Body resp) of
                      (body, Some err) \<Rightarrow> Inl (Errorf_w ''failed to read response: '' err)
                    | (body, None) \<Rightarrow> Inr body)"

definition GetRevisions_queryParams :: "'t golib \<Rightarrow> 't GetRevisionsParams \<Rightarrow> Values" where
  "GetRevisions_queryParams lib params =
     (let queryParams = [];
          queryParams = setIf queryParams ''law_title'' Sprintf_v_string
              (GetRevisionsParams.LawTitle params);
          queryParams = setIf queryParams ''law_title_kana'' Sprintf_v_string
              (GetRevisionsParams.LawTitleKana params);
          queryParams = setIf queryParams ''amendment_date_from'' (Sprintf_v lib)
              (GetRevisionsParams.AmendmentDateFrom params);
          queryParams = setIf queryParams ''amendment_date_to'' (Sprintf_v lib)
              (GetRevisionsParams.AmendmentDateTo params);
          queryParams = setIf queryParams ''amendment_law_id'' Sprintf_v_string
              (GetRevisionsParams.AmendmentLawId params);
          queryParams = setIf queryParams ''amendment_law_num'' Sprintf_v_string
              (GetRevisionsParams.AmendmentLawNum params);
          queryParams = setIf queryParams ''amendment_law_title'' Sprintf_v_string
              (GetRevisionsParams.AmendmentLawTitle params);
          queryParams = setIf queryParams ''amendment_law_title_kana'' Sprintf_v_string
              (GetRevisionsParams.AmendmentLawTitleKana params);
          queryParams = setIf queryParams ''amendment_promulgate_date_from'' (Sprintf_v lib)
              (GetRevisionsParams.AmendmentPromulgateDateFrom params);
          queryParams = setIf queryParams ''amendment_promulgate_date_to'' (Sprintf_v lib)
              (GetRevisionsParams.AmendmentPromulgateDateTo params);
          queryParams = addEach queryParams ''amendment_type'' (Sprintf_v lib)
              (GetRevisionsParams.AmendmentType params);
          queryParams = addEach queryParams ''category_cd'' (Sprintf_v lib)
              (GetRevisionsParams.CategoryCd params);
          queryParams = addEach queryParams ''current_revision_status'' (Sprintf_v lib)
              (GetRevisionsParams.CurrentRevisionStatus params);
          queryParams = addEach queryParams ''mission'' (Sprintf_v lib)
              (GetRevisionsParams.Mission params);
          queryParams = setIf queryParams ''remain_in_force'' Sprintf_v_bool
              (GetRevisionsParams.RemainInForce params);
          queryParams = setIf queryParams ''repeal_date_from'' (Sprintf_v lib)
              (GetRevisionsParams.RepealDateFrom params);
          queryParams = setIf queryParams ''repeal_date_to'' (Sprintf_v lib)
              (GetRevisionsParams.RepealDateTo params);
          queryParams = addEach queryParams ''repeal_status'' (Sprintf_v lib)
              (GetRevisionsParams.RepealStatus params);
          queryParams = setIf queryParams ''updated_from'' (Sprintf_v lib)
              (GetRevisionsParams.UpdatedFrom params);
          queryParams = setIf queryParams ''updated_to'' (Sprintf_v lib)
              (GetRevisionsParams.UpdatedTo params);
          queryParams = setIf queryParams ''response_format'' (Sprintf_v lib)
              (GetRevisionsParams.ResponseFormat params)
      in queryParams)"

definition GetRevisions_urlPath ::
  "'t golib \<Rightarrow> Client \<Rightarrow> string \<Rightarrow> 't GetRevisionsParams option \<Rightarrow> string" where
  "GetRevisions_urlPath lib c lawIdOrNum params =
     (let urlPath = baseURL c @ ''/law_revisions'' @ ''/'' @ lawIdOrNum
      in case params of
           None \<Rightarrow> urlPath
         | Some params \<Rightarrow>
             let queryParams = GetRevisions_queryParams lib params
             in if length queryParams > 0 then urlPath @ ''?'' @ Encode queryParams
                else urlPath)"

definition GetRevisions ::
  "'t golib \<Rightarrow> (body \<Rightarrow> error + 'r) \<Rightarrow> Client \<Rightarrow> string \<Rightarrow> 't GetRevisionsParams option \<Rightarrow> error + 'r" where
  "GetRevisions lib Decode c lawIdOrNum params =
     (let urlPath = GetRevisions_urlPath lib c lawIdOrNum params
      in case NewRequest lib ''GET'' urlPath of
           Inl err \<Rightarrow> Inl (Errorf_w ''failed to create request: '' err)
         | Inr req \<Rightarrow>
             case httpClient c req of
               Inl err \<Rightarrow> Inl (Errorf_w ''failed to execute request: '' err)
             | Inr resp \<Rightarrow>
               if StatusCode resp \<ge> 400 then
                 (let (body, _) = ReadAll (Body resp)
                  in Inl (Errorf_API (StatusCode resp) body))
               else case Decode (Body resp) of
                      Inl err \<Rightarrow> Inl (Errorf_w ''failed to decode response: '' err)
                    | Inr result \<Rightarrow> Inr result)"

definition GetLaws_queryParams :: "'t golib \<Rightarrow> 't GetLawsParams \<Rightarrow> Values" where
  "GetLaws_queryParams lib params =
     (let queryParams = [];
          queryParams = setIf queryParams ''law_id'' Sprintf_v_string
              (GetLawsParams.LawId params);
          queryParams = setIf queryParams ''law_num'' Sprintf_v_string
              (GetLawsParams.LawNum params);
          queryParams = setIf queryParams ''law_num_era'' (Sprintf_v lib)
              (GetLawsParams.LawNumEra params);
          queryParams = setIf queryParams ''law_num_num'' Sprintf_v_string
              (GetLawsParams.LawNumNum params);
          queryParams = setIf queryParams ''law_num_type'' (Sprintf_v lib)
              (GetLawsParams.LawNumType params);
          queryParams = setIf queryParams ''law_num_year'' Sprintf_v_int
              (GetLawsParams.LawNumYear params);
          queryParams = setIf queryParams ''law_title'' Sprintf_v_string
              (GetLawsParams.LawTitle params);
          queryParams = setIf queryParams ''law_title_kana'' Sprintf_v_string
              (GetLawsParams.LawTitleKana params);
          queryParams = addEach queryParams ''law_type'' (Sprintf_v lib)
              (GetLawsParams.LawType params);
          queryParams = setIf queryParams ''amendment_law_id'' Sprintf_v_string
              (GetLawsParams.AmendmentLawId params);
          queryParams = setIf queryParams ''asof'' (Sprintf_v lib) (GetLawsParams.Asof params);
          queryParams = addEach queryParams ''category_cd'' (Sprintf_v lib)
              (GetLawsParams.CategoryCd params);
          queryParams = addEach queryParams ''mission'' (Sprintf_v lib)
              (GetLawsParams.Mission params);
          queryParams = setIf queryParams ''omit_current_revision_info'' Sprintf_v_bool
              (GetLawsParams.OmitCurrentRevisionInfo params);
          queryParams = setIf queryParams ''promulgation_date_from'' (Sprintf_v lib)
              (GetLawsParams.PromulgationDateFrom params);
          queryParams = setIf queryParams ''promulgation_date_to'' (Sprintf_v lib)
              (GetLawsParams.PromulgationDateTo params);
          queryParams = addEach queryParams ''repeal_status'' (Sprintf_v lib)
              (GetLawsParams.RepealStatus params);
          queryParams = setIf queryParams ''limit'' Sprintf_v_int32 (GetLawsParams.Limit params);
          queryParams = setIf queryParams ''offset'' Sprintf_v_int32
              (GetLawsParams.Offset params);
          queryParams = setIf queryParams ''order'' Sprintf_v_string (GetLawsParams.Order params);
          queryParams = setIf queryParams ''response_format'' (Sprintf_v lib)
              (GetLawsParams.ResponseFormat params)
      in queryParams)"

definition GetLaws_urlPath ::
  "'t golib \<Rightarrow> Client \<Rightarrow> 't GetLawsParams option \<Rightarrow> string" where
  "GetLaws_urlPath lib c params =
     (let urlPath = baseURL c @ ''/laws''
      in case params of
           None \<Rightarrow> urlPath
         | Some params \<Rightarrow>
             let queryParams = GetLaws_queryParams lib params
             in if length queryParams > 0 then urlPath @ ''?'' @ Encode queryParams
                else urlPath)"

definition GetLaws ::
  "'t golib \<Rightarrow> (body \<Rightarrow> error + 'r) \<Rightarrow> Client \<Rightarrow> 't GetLawsParams option \<Rightarrow> error + 'r" where
  "GetLaws lib Decode c params =
     (let urlPath = GetLaws_urlPath lib c params
      in case NewRequest lib ''GET'' urlPath of
           Inl err \<Rightarrow> Inl (Errorf_w ''failed to create request: '' err)
         | Inr req \<Rightarrow>
             case httpClient c req of
               Inl err \<Rightarrow> Inl (Errorf_w ''failed to execute request: '' err)
             | Inr resp \<Rightarrow>
               if StatusCode resp \<ge> 400 then
                 (let (body, _) = ReadAll (Body resp)
                  in Inl (Errorf_API (StatusCode resp) body))
               else case Decode (Body resp) of
                      Inl err \<Rightarrow> Inl (Errorf_w ''failed to decode response: '' err)
                    | Inr result \<Rightarrow> Inr result)"

subsection \<open>Notions used to state the properties of the query string\<close>

text \<open>
  \<open>encodedPair k x\<close> is the text \<open>Encode\<close> writes for the value \<open>x\<close> of the key \<open>k\<close>,
  and \<open>repeated key vals\<close> is the text \<open>key=v1&key=v2&...\<close> of one pair for each
  value in order, every value escaped.
\<close>

definition encodedPair :: "string \<Rightarrow> string \<Rightarrow> string" where
  "encodedPair k x = QueryEscape k @ ''='' @ QueryEscape x"

abbreviation repeated :: "string \<Rightarrow> string list \<Rightarrow> string" where
  "repeated key vals \<equiv> Join (map (\<lambda>v. key @ ''='' @ QueryEscape v) vals) ''&''"

section \<open>Properties of the naming engine\<close>

lemma Join_nil_sep: "Join ws [] = concat ws"
  by (induction ws "[]::string" rule: Join.induct) simp_all

lemma fieldsFrom_nonempty: "w \<in> set (fieldsFrom f cur s) \<Longrightarrow> w \<noteq> []"
  by (induction s arbitrary: cur) (auto split: if_splits)

lemma fieldsFrom_subset: "w \<in> set (fieldsFrom f cur s) \<Longrightarrow> set w \<subseteq> set cur \<union> set s"
  by (induction s arbitrary: cur) (fastforce split: if_splits)+

lemma fieldsFrom_no_sep:
  "w \<in> set (fieldsFrom f cur s) \<Longrightarrow> list_all (\<lambda>c. \<not> f c) cur \<Longrightarrow> list_all (\<lambda>c. \<not> f c) w"
  by (induction s arbitrary: cur) (auto split: if_splits)

lemma fieldsFrom_plain:
  "list_all (\<lambda>c. \<not> f c) s \<Longrightarrow> fieldsFrom f cur s = (if cur @ s = [] then [] else [cur @ s])"
  by (induction s arbitrary: cur) auto

lemma upperByte_ascii: "(of_char c :: nat) < 128 \<Longrightarrow> (of_char (upperByte c) :: nat) < 128"
  by (auto simp: upperByte_def less_eq_char_def)

lemma lowerByte_ascii: "(of_char c :: nat) < 128 \<Longrightarrow> (of_char (lowerByte c) :: nat) < 128"
  by (auto simp: lowerByte_def less_eq_char_def)

lemma upperByte_idem: "upperByte (upperByte c) = upperByte c"
  by (auto simp: upperByte_def less_eq_char_def)

lemma lowerByte_idem: "lowerByte (lowerByte c) = lowerByte c"
  by (auto simp: lowerByte_def less_eq_char_def)

lemma isSeparator_code:
  "isSeparator c \<longleftrightarrow>
     (of_char c :: nat) = 95 \<or> (of_char c :: nat) = 45 \<or> (of_char c :: nat) = 32"
proof -
  have "c = CHR ''_'' \<longleftrightarrow> (of_char c :: nat) = of_char CHR ''_''"
    by (simp only: of_char_eq_iff)
  moreover have "c = CHR ''-'' \<longleftrightarrow> (of_char c :: nat) = of_char CHR ''-''"
    by (simp only: of_char_eq_iff)
  moreover have "c = CHR '' '' \<longleftrightarrow> (of_char c :: nat) = of_char CHR '' ''"
    by (simp only: of_char_eq_iff)
  ultimately show ?thesis by (simp add: isSeparator_def)
qed

lemma upperByte_sep: "isSeparator (upperByte c) \<longleftrightarrow> isSeparator c"
  by (auto simp: isSeparator_code upperByte_def less_eq_char_def)

lemma lowerByte_sep: "isSeparator (lowerByte c) \<longleftrightarrow> isSeparator c"
  by (auto simp: isSeparator_code lowerByte_def less_eq_char_def)

lemma string_of_byte_ascii: "(of_char b :: nat) < 128 \<Longrightarrow> string_of_byte b = [b]"
  by (simp add: string_of_byte_def)

lemma capitalize_ascii: "isASCII w \<Longrightarrow> capitalize uc w = capitalizeASCII w"
  by (cases w)
    (simp_all add: capitalize_def capitalizeASCII_def ToUpper_def ToLower_def isASCII_def
      string_of_byte_ascii)

lemma capitalizeASCII_idem: "capitalizeASCII (capitalizeASCII w) = capitalizeASCII w"
  by (cases w) (simp_all add: capitalizeASCII_def upperByte_idem lowerByte_idem)

lemma capitalizeASCII_ascii: "isASCII w \<Longrightarrow> isASCII (capitalizeASCII w)"
  by (cases w)
    (simp_all add: capitalizeASCII_def isASCII_def upperByte_ascii lowerByte_ascii list_all_iff)

lemma capitalizeASCII_no_sep:
  "list_all (\<lambda>c. \<not> isSeparator c) w \<Longrightarrow> list_all (\<lambda>c. \<not> isSeparator c) (capitalizeASCII w)"
  by (cases w) (simp_all add: capitalizeASCII_def upperByte_sep lowerByte_sep list_all_iff)

lemma capitalizeASCII_nonempty: "w \<noteq> [] \<Longrightarrow> capitalizeASCII w \<noteq> []"
  by (cases w) (simp_all add: capitalizeASCII_def)

lemma toPascalCase_words:
  "toPascalCase uc s = concat (map (capitalize uc) (FieldsFunc s isSeparator))"
  by (simp add: toPascalCase_def Join_nil_sep FieldsFunc_def)

lemma FieldsFunc_ascii: "isASCII s \<Longrightarrow> w \<in> set (FieldsFunc s f) \<Longrightarrow> isASCII w"
  using fieldsFrom_subset [of w f "[]" s]
  by (auto simp: FieldsFunc_def isASCII_def list_all_iff)

lemma FieldsFunc_no_sep: "w \<in> set (FieldsFunc s f) \<Longrightarrow> list_all (\<lambda>c. \<not> f c) w"
  using fieldsFrom_no_sep [of w f "[]" s] by (simp add: FieldsFunc_def)

lemma FieldsFunc_nonempty: "w \<in> set (FieldsFunc s f) \<Longrightarrow> w \<noteq> []"
  using fieldsFrom_nonempty [of w f "[]" s] by (simp add: FieldsFunc_def)

lemma toPascalCase_ascii:
  "isASCII s \<Longrightarrow> toPascalCase uc s = concat (map capitalizeASCII (FieldsFunc s isSeparator))"
  unfolding toPascalCase_words
  by (rule arg_cong [where f = concat]) (simp add: capitalize_ascii FieldsFunc_ascii)

lemma toPascalCase_single_word:
  assumes "isASCII w" and "list_all (\<lambda>c. \<not> isSeparator c) w"
  shows "toPascalCase uc w = capitalizeASCII w"
proof (cases "w = []")
  case True
  then show ?thesis by (simp add: toPascalCase_def capitalizeASCII_def)
next
  case False
  with assms(2) have "FieldsFunc w isSeparator = [w]"
    by (simp add: FieldsFunc_def fieldsFrom_plain)
  with assms(1) show ?thesis by (simp add: toPascalCase_ascii)
qed

section \<open>Claims about the naming engine\<close>

text \<open>
  Claim C2 (as amended). Applying \<open>toPascalCase\<close> twice gives the same result as
  applying it once for every string of ASCII bytes that holds at most one word, that
  is, whose split on \<open>_\<close>, \<open>-\<close> and space has at most one piece.
\<close>

theorem toPascalCase_idempotent_one_word:
  assumes "isASCII s" and "length (FieldsFunc s isSeparator) \<le> 1"
  shows "toPascalCase uc (toPascalCase uc s) = toPascalCase uc s"
proof (cases "FieldsFunc s isSeparator")
  case Nil
  with assms(1) show ?thesis by (simp add: toPascalCase_ascii toPascalCase_def)
next
  case (Cons w ws)
  with assms(2) have ws: "FieldsFunc s isSeparator = [w]" by simp
  then have w: "w \<in> set (FieldsFunc s isSeparator)" by simp
  have a: "isASCII w" using FieldsFunc_ascii [OF assms(1) w] .
  have n: "list_all (\<lambda>c. \<not> isSeparator c) w" using FieldsFunc_no_sep [OF w] .
  have p: "toPascalCase uc s = capitalizeASCII w"
    using assms(1) ws by (simp add: toPascalCase_ascii)
  have "toPascalCase uc (capitalizeASCII w) = capitalizeASCII (capitalizeASCII w)"
    by (rule toPascalCase_single_word) (simp_all add: a n capitalizeASCII_ascii capitalizeASCII_no_sep)
  then show ?thesis by (simp add: p capitalizeASCII_idem)
qed

theorem toPascalCase_idempotent_one_word_witness:
  "\<forall>uc. isASCII ''lawId'' \<and> length (FieldsFunc ''lawId'' isSeparator) \<le> 1
     \<and> toPascalCase uc (toPascalCase uc ''lawId'') = toPascalCase uc ''lawId''
     \<and> toPascalCase uc ''lawId'' = ''Lawid''"
proof
  fix uc
  have a: "isASCII ''lawId''" by code_simp
  have l: "length (FieldsFunc ''lawId'' isSeparator) \<le> 1" by code_simp
  have v: "toPascalCase uc ''lawId'' = ''Lawid''" by code_simp
  show "isASCII ''lawId'' \<and> length (FieldsFunc ''lawId'' isSeparator) \<le> 1
     \<and> toPascalCase uc (toPascalCase uc ''lawId'') = toPascalCase uc ''lawId''
     \<and> toPascalCase uc ''lawId'' = ''Lawid''"
    using a l v toPascalCase_idempotent_one_word [OF a l, of uc] by simp
qed

text \<open>
  Claim C2 as stated fails: \<open>foo_bar\<close> becomes \<open>FooBar\<close>, and \<open>FooBar\<close>, now a single
  word, becomes \<open>Foobar\<close>.
\<close>

theorem toPascalCase_not_idempotent:
  "\<forall>uc. toPascalCase uc ''foo_bar'' = ''FooBar''
     \<and> toPascalCase uc (toPascalCase uc ''foo_bar'') = ''Foobar''"
proof
  fix uc
  have 1: "toPascalCase uc ''foo_bar'' = ''FooBar''" by code_simp
  have 2: "toPascalCase uc ''FooBar'' = ''Foobar''" by code_simp
  show "toPascalCase uc ''foo_bar'' = ''FooBar''
     \<and> toPascalCase uc (toPascalCase uc ''foo_bar'') = ''Foobar''"
    by (simp only: 1 2)
qed

text \<open>
  Claim C8, at a word that begins with a character of more than one byte. The input is
  the UTF-8 text of \<open>ecole\<close> with an acute accent on the first letter (bytes
  \<open>C3 A9 63 6F 6C 65\<close>). \<open>word[0]\<close> is the byte \<open>C3\<close>, and \<open>string(word[0])\<close> is the
  text of the code point \<open>U+00C3\<close> (bytes \<open>C3 83\<close>), a capital A with tilde: that, not
  the first character, is what \<open>strings.ToUpper\<close> receives, and \<open>strings.ToLower\<close>
  receives the rest of the bytes from the orphaned continuation byte \<open>A9\<close> on.
\<close>

theorem toPascalCase_first_byte:
  "toPascalCase uc (CHR 0xC3 # CHR 0xA9 # ''cole'')
     = MapToUpper uc [CHR 0xC3, CHR 0x83] @ MapToLower uc (CHR 0xA9 # ''cole'')"
  by code_simp

text \<open>
  Claim C5. The method name of an operation is \<open>toPascalCase\<close> of its identifier with
  every \<open>-\<close> replaced by \<open>_\<close>; the identifier \<open>get-law-data\<close> gives \<open>GetLawData\<close>;
  every operation with an empty identifier gives \<open>UnknownOperation\<close>.
\<close>

theorem GetMethodName_spec:
  "(OperationID op \<noteq> [] \<longrightarrow>
      GetMethodName uc op = toPascalCase uc (ReplaceAll (OperationID op) CHR ''-'' CHR ''_''))
   \<and> (OperationID op = ''get-law-data'' \<longrightarrow> GetMethodName uc op = ''GetLawData'')
   \<and> (OperationID op = [] \<longrightarrow> GetMethodName uc op = ''UnknownOperation'')"
proof -
  have "toPascalCase uc (ReplaceAll ''get-law-data'' CHR ''-'' CHR ''_'') = ''GetLawData''"
    by code_simp
  then show ?thesis by (simp add: GetMethodName_def)
qed

theorem GetMethodName_spec_witness:
  "\<forall>uc. GetMethodName uc
       \<lparr>OperationID = ''get-law-data'', Summary = [], Operation.Description = [], Tags = [],
        Parameters = ([] :: unit Parameter list), RequestBody = None, Responses = []\<rparr> = ''GetLawData''
     \<and> GetMethodName uc
       \<lparr>OperationID = ''get-law_file'', Summary = [], Operation.Description = [], Tags = [],
        Parameters = ([] :: unit Parameter list), RequestBody = None, Responses = []\<rparr> = ''GetLawFile''
     \<and> GetMethodName uc
       \<lparr>OperationID = [], Summary = ''a'', Operation.Description = [], Tags = [],
        Parameters = ([] :: unit Parameter list), RequestBody = None, Responses = []\<rparr> = ''UnknownOperation''
     \<and> GetMethodName uc
       \<lparr>OperationID = [], Summary = ''b'', Operation.Description = [], Tags = [],
        Parameters = ([] :: unit Parameter list), RequestBody = None, Responses = []\<rparr> = ''UnknownOperation''"
proof
  fix uc :: unicode
  let ?a = "\<lparr>OperationID = ''get-law-data'', Summary = [], Operation.Description = [], Tags = [],
        Parameters = ([] :: unit Parameter list), RequestBody = None, Responses = []\<rparr>"
  let ?f = "\<lparr>OperationID = ''get-law_file'', Summary = [], Operation.Description = [], Tags = [],
        Parameters = ([] :: unit Parameter list), RequestBody = None, Responses = []\<rparr>"
  let ?b = "\<lparr>OperationID = [], Summary = ''a'', Operation.Description = [], Tags = [],
        Parameters = ([] :: unit Parameter list), RequestBody = None, Responses = []\<rparr>"
  let ?c = "\<lparr>OperationID = [], Summary = ''b'', Operation.Description = [], Tags = [],
        Parameters = ([] :: unit Parameter list), RequestBody = None, Responses = []\<rparr>"
  have 1: "GetMethodName uc ?a = ''GetLawData''"
    by (rule GetMethodName_spec [THEN conjunct2, THEN conjunct1, rule_format]) simp
  have n: "toPascalCase uc (ReplaceAll (OperationID ?f) CHR ''-'' CHR ''_'') = ''GetLawFile''"
    by code_simp
  have "GetMethodName uc ?f = toPascalCase uc (ReplaceAll (OperationID ?f) CHR ''-'' CHR ''_'')"
    by (rule GetMethodName_spec [THEN conjunct1, rule_format]) simp
  then have 2: "GetMethodName uc ?f = ''GetLawFile''"
    by (simp only: n)
  have 3: "GetMethodName uc ?b = ''UnknownOperation''"
    by (rule GetMethodName_spec [THEN conjunct2, THEN conjunct2, rule_format]) simp
  have 4: "GetMethodName uc ?c = ''UnknownOperation''"
    by (rule GetMethodName_spec [THEN conjunct2, THEN conjunct2, rule_format]) simp
  from 1 2 3 4 show "GetMethodName uc ?a = ''GetLawData'' \<and> GetMethodName uc ?f = ''GetLawFile''
    \<and> GetMethodName uc ?b = ''UnknownOperation'' \<and> GetMethodName uc ?c = ''UnknownOperation''"
    by (intro conjI)
qed

section \<open>Claims about the type resolver\<close>

lemma firstRef_first:
  "list_all (\<lambda>x. Schema.Ref x = []) pre \<Longrightarrow> Schema.Ref m \<noteq> [] \<Longrightarrow>
     firstRef (pre @ m # post) = Some (Schema.Ref m)"
  by (induction pre) simp_all

lemma firstRef_none: "list_all (\<lambda>x. Schema.Ref x = []) xs \<Longrightarrow> firstRef xs = None"
  by (induction xs) simp_all

text \<open>
  Claim C4. A schema whose \<open>$ref\<close> is not empty resolves to \<open>toPascalCase\<close> of the
  last \<open>/\<close>-segment of the reference, whatever its other fields hold; so two such
  schemas whose last segments differ in PascalCase resolve to different names.
\<close>

theorem GoType_ref:
  "(Schema.Ref s \<noteq> [] \<longrightarrow>
      GoType uc s = toPascalCase uc (last (Split (Schema.Ref s) CHR ''/'')))
   \<and> (Schema.Ref s1 \<noteq> [] \<and> Schema.Ref s2 \<noteq> []
        \<and> toPascalCase uc (last (Split (Schema.Ref s1) CHR ''/''))
            \<noteq> toPascalCase uc (last (Split (Schema.Ref s2) CHR ''/''))
      \<longrightarrow> GoType uc s1 \<noteq> GoType uc s2)"
  by (cases s; cases s1; cases s2) (simp add: refTypeName_def)

theorem GoType_ref_witness:
  "\<forall>uc. GoType uc (Schema.Schema ''string'' ''date'' [] [] None ([]::unit list) [] ''#/components/schemas/law_type'' None [] [] [])
          = ''LawType''
     \<and> GoType uc (Schema.Schema ''string'' ''date'' [] [] None ([]::unit list) [] ''#/components/schemas/law_type'' None [] [] [])
          \<noteq> GoType uc (Schema.Schema [] [] [] [] None ([]::unit list) [] ''#/components/schemas/Foo'' None [] [] [])"
proof
  fix uc :: unicode
  let ?s1 = "Schema.Schema ''string'' ''date'' [] [] None ([]::unit list) [] ''#/components/schemas/law_type'' None [] [] []"
  let ?s2 = "Schema.Schema [] [] [] [] None ([]::unit list) [] ''#/components/schemas/Foo'' None [] [] []"
  have r1: "Schema.Ref ?s1 \<noteq> []" and r2: "Schema.Ref ?s2 \<noteq> []" by simp_all
  have n1: "toPascalCase uc (last (Split (Schema.Ref ?s1) CHR ''/'')) = ''LawType''" by code_simp
  have n2: "toPascalCase uc (last (Split (Schema.Ref ?s2) CHR ''/'')) = ''Foo''" by code_simp
  have "GoType uc ?s1 = toPascalCase uc (last (Split (Schema.Ref ?s1) CHR ''/''))"
    by (rule GoType_ref [THEN conjunct1, rule_format, OF r1])
  then have "GoType uc ?s1 = ''LawType''"
    by (simp only: n1)
  moreover have "GoType uc ?s1 \<noteq> GoType uc ?s2"
  proof (rule GoType_ref [THEN conjunct2, rule_format])
    show "Schema.Ref ?s1 \<noteq> [] \<and> Schema.Ref ?s2 \<noteq> []
        \<and> toPascalCase uc (last (Split (Schema.Ref ?s1) CHR ''/''))
            \<noteq> toPascalCase uc (last (Split (Schema.Ref ?s2) CHR ''/''))"
      unfolding n1 n2 by simp
  qed
  ultimately show "GoType uc ?s1 = ''LawType'' \<and> GoType uc ?s1 \<noteq> GoType uc ?s2" by (rule conjI)
qed

text \<open>
  Claim C3. For a schema with an empty \<open>$ref\<close> and a non-empty \<open>allOf\<close>: if a member
  \<open>m\<close> carries a reference and no member before it does, the schema resolves to
  \<open>toPascalCase\<close> of the last \<open>/\<close>-segment of the reference of \<open>m\<close>, whatever the
  members after \<open>m\<close> are; if no member carries a reference, the schema resolves to what
  the \<open>switch\<close> on its own fields gives. The witness is the schema
  \<open>{allOf: [{$ref: "#/components/schemas/Foo"}, {type: object}]}\<close>, which resolves to
  \<open>Foo\<close>.
\<close>

theorem GoType_allOf:
  assumes "Schema.Ref s = []" and "AllOf s \<noteq> []"
  shows "(AllOf s = pre @ m # post \<and> list_all (\<lambda>x. Schema.Ref x = []) pre \<and> Schema.Ref m \<noteq> []
            \<longrightarrow> GoType uc s = toPascalCase uc (last (Split (Schema.Ref m) CHR ''/'')))
       \<and> (list_all (\<lambda>x. Schema.Ref x = []) (AllOf s) \<longrightarrow> GoType uc s = typeSwitch uc s)"
  using assms by (cases s) (auto simp: refTypeName_def firstRef_first firstRef_none)

theorem GoType_allOf_witness:
  "\<forall>uc. GoType uc (Schema.Schema [] [] [] [] None ([]::unit list) [] [] None
            [Schema.Schema [] [] [] [] None [] [] ''#/components/schemas/Foo'' None [] [] [],
             Schema.Schema ''object'' [] [] [] None [] [] [] None [] [] []] [] []) = ''Foo''
     \<and> GoType uc (Schema.Schema [] [] [] [] None ([]::unit list) [] [] None
            [Schema.Schema ''object'' [] [] [] None [] [] [] None [] [] []] [] []) = ''interface{}''"
proof
  fix uc :: unicode
  let ?foo = "Schema.Schema [] [] [] [] None ([]::unit list) [] ''#/components/schemas/Foo'' None [] [] []"
  let ?obj = "Schema.Schema ''object'' [] [] [] None ([]::unit list) [] [] None [] [] []"
  let ?s = "Schema.Schema [] [] [] [] None ([]::unit list) [] [] None [?foo, ?obj] [] []"
  let ?t = "Schema.Schema [] [] [] [] None ([]::unit list) [] [] None [?obj] [] []"
  have n: "toPascalCase uc (last (Split (Schema.Ref ?foo) CHR ''/'')) = ''Foo''" by code_simp
  have "GoType uc ?s = toPascalCase uc (last (Split (Schema.Ref ?foo) CHR ''/''))"
  proof (rule GoType_allOf [THEN conjunct1, rule_format])
    show "Schema.Ref ?s = []" by simp
    show "AllOf ?s \<noteq> []" by simp
    show "AllOf ?s = [] @ ?foo # [?obj] \<and> list_all (\<lambda>x. Schema.Ref x = []) []
            \<and> Schema.Ref ?foo \<noteq> []" by simp
  qed
  then have 1: "GoType uc ?s = ''Foo''" by (simp only: n)
  have "GoType uc ?t = typeSwitch uc ?t"
  proof (rule GoType_allOf [THEN conjunct2, rule_format])
    show "Schema.Ref ?t = []" by simp
    show "AllOf ?t \<noteq> []" by simp
    show "list_all (\<lambda>x. Schema.Ref x = []) (AllOf ?t)" by simp
  qed
  also have "\<dots> = ''interface{}''" by simp
  finally have 2: "GoType uc ?t = ''interface{}''" .
  from 1 2 show "GoType uc ?s = ''Foo'' \<and> GoType uc ?t = ''interface{}''" by (rule conjI)
qed

text \<open>
  Claim C6. A schema of type \<open>array\<close> with an empty \<open>$ref\<close> and an empty \<open>allOf\<close>
  resolves to \<open>[]\<close> followed by the type of its \<open>items\<close>, and to \<open>[]interface{}\<close>
  when \<open>items\<close> is \<open>nil\<close>. The witness is \<open>{type: array, items: {type: integer,
  format: int32}}\<close>, which resolves to \<open>[]int32\<close>.
\<close>

theorem GoType_array:
  assumes "Schema.Type s = ''array''" and "Schema.Ref s = []" and "AllOf s = []"
  shows "GoType uc s = (case Items s of Some it \<Rightarrow> ''[]'' @ GoType uc it | None \<Rightarrow> ''[]interface{}'')"
  using assms by (cases s) simp

theorem GoType_array_witness:
  "\<forall>uc. GoType uc (Schema.Schema ''array'' [] [] [] 
            (Some (Schema.Schema ''integer'' ''int32'' [] [] None [] [] [] None [] [] []))
            ([]::unit list) [] [] None [] [] []) = ''[]int32''
     \<and> GoType uc (Schema.Schema ''array'' [] [] [] None ([]::unit list) [] [] None [] [] [])
          = ''[]interface{}''"
proof
  fix uc :: unicode
  let ?i = "Schema.Schema ''integer'' ''int32'' [] [] None ([]::unit list) [] [] None [] [] []"
  let ?s = "Schema.Schema ''array'' [] [] [] (Some ?i) ([]::unit list) [] [] None [] [] []"
  let ?t = "Schema.Schema ''array'' [] [] [] None ([]::unit list) [] [] None [] [] []"
  have "GoType uc ?s = (case Items ?s of Some it \<Rightarrow> ''[]'' @ GoType uc it | None \<Rightarrow> ''[]interface{}'')"
    by (rule GoType_array) simp_all
  then have 1: "GoType uc ?s = ''[]int32''" by simp
  have "GoType uc ?t = (case Items ?t of Some it \<Rightarrow> ''[]'' @ GoType uc it | None \<Rightarrow> ''[]interface{}'')"
    by (rule GoType_array) simp_all
  then have 2: "GoType uc ?t = ''[]interface{}''" by simp
  from 1 2 show "GoType uc ?s = ''[]int32'' \<and> GoType uc ?t = ''[]interface{}''" by (rule conjI)
qed

text \<open>
  Claim C7. A schema of type \<open>string\<close> with an empty \<open>$ref\<close> and an empty \<open>allOf\<close>
  resolves to \<open>string\<close> when \<open>enum\<close> is not empty, whatever the format; otherwise to
  \<open>DateTime\<close> for the format \<open>date-time\<close>, to \<open>Date\<close> for the format \<open>date\<close>, and to
  \<open>string\<close> for any other format.
\<close>

theorem GoType_string:
  assumes "Schema.Type s = ''string''" and "Schema.Ref s = []" and "AllOf s = []"
  shows "GoType uc s =
           (if Enum s \<noteq> [] then ''string''
            else if Format s = ''date-time'' then ''DateTime''
            else if Format s = ''date'' then ''Date''
            else ''string'')"
  using assms by (cases s) simp

theorem GoType_string_witness:
  "\<forall>uc. GoType uc (Schema.Schema ''string'' ''date-time'' [] [] None [()] [] [] None [] [] []) = ''string''
     \<and> GoType uc (Schema.Schema ''string'' ''date-time'' [] [] None ([]::unit list) [] [] None [] [] []) = ''DateTime''
     \<and> GoType uc (Schema.Schema ''string'' ''date'' [] [] None ([]::unit list) [] [] None [] [] []) = ''Date''
     \<and> GoType uc (Schema.Schema ''string'' ''uuid'' [] [] None ([]::unit list) [] [] None [] [] []) = ''string''"
proof
  fix uc :: unicode
  let ?e = "Schema.Schema ''string'' ''date-time'' [] [] None [()] [] [] None [] [] []"
  let ?dt = "Schema.Schema ''string'' ''date-time'' [] [] None ([]::unit list) [] [] None [] [] []"
  let ?d = "Schema.Schema ''string'' ''date'' [] [] None ([]::unit list) [] [] None [] [] []"
  let ?u = "Schema.Schema ''string'' ''uuid'' [] [] None ([]::unit list) [] [] None [] [] []"
  have 1: "GoType uc ?e = ''string''"
    using GoType_string [of ?e uc] by simp
  have 2: "GoType uc ?dt = ''DateTime''"
    using GoType_string [of ?dt uc] by simp
  have 3: "GoType uc ?d = ''Date''"
    using GoType_string [of ?d uc] by simp
  have 4: "GoType uc ?u = ''string''"
    using GoType_string [of ?u uc] by simp
  from 1 2 3 4 show "GoType uc ?e = ''string'' \<and> GoType uc ?dt = ''DateTime''
      \<and> GoType uc ?d = ''Date'' \<and> GoType uc ?u = ''string''" by simp
qed

section \<open>Claims about the traversal order\<close>

lemma range_keys: "foldl (\<lambda>names (name, _). names @ [name]) acc m = acc @ map fst m"
  by (induction m arbitrary: acc) (simp_all add: case_prod_beta)

lemma sort_distinct_keys:
  assumes "distinct (map fst m)"
  shows "sort (map fst m) = sorted_list_of_set (fst ` set m)"
proof -
  have "sorted_list_of_set (set (map fst m)) = sort (remdups (map fst m))"
    by (rule sorted_list_of_set_sort_remdups)
  with assms show ?thesis by (simp add: distinct_remdups_id)
qed

lemma GetSortedSchemas_sort: "GetSortedSchemas x = sort (map fst (Schemas (Components x)))"
  by (simp add: GetSortedSchemas_def range_keys)

lemma GetSortedPaths_sort: "GetSortedPaths x = sort (map fst (Paths x))"
  by (simp add: GetSortedPaths_def range_keys)

text \<open>
  Claim C10. \<open>GetSortedSchemas\<close> returns the keys of the component map, each once, in
  ascending order of their bytes, and \<open>GetSortedPaths\<close> does so for the paths: each
  result is the sorted list of the set of keys, so the order in which the map is
  visited does not show in it.
\<close>

theorem GetSorted_spec:
  assumes "distinct (map fst (Schemas (Components spec)))" and "distinct (map fst (Paths spec))"
  shows "GetSortedSchemas spec = sorted_list_of_set (fst ` set (Schemas (Components spec)))
       \<and> sorted (GetSortedSchemas spec) \<and> distinct (GetSortedSchemas spec)
       \<and> set (GetSortedSchemas spec) = fst ` set (Schemas (Components spec))
       \<and> GetSortedPaths spec = sorted_list_of_set (fst ` set (Paths spec))
       \<and> sorted (GetSortedPaths spec) \<and> distinct (GetSortedPaths spec)
       \<and> set (GetSortedPaths spec) = fst ` set (Paths spec)
       \<and> (distinct (map fst (Schemas (Components spec')))
            \<and> fst ` set (Schemas (Components spec')) = fst ` set (Schemas (Components spec))
          \<longrightarrow> GetSortedSchemas spec' = GetSortedSchemas spec)
       \<and> (distinct (map fst (Paths spec'))
            \<and> fst ` set (Paths spec') = fst ` set (Paths spec)
          \<longrightarrow> GetSortedPaths spec' = GetSortedPaths spec)"
proof -
  note s = GetSortedSchemas_sort
  note p = GetSortedPaths_sort
  have 1: "GetSortedSchemas spec = sorted_list_of_set (fst ` set (Schemas (Components spec)))"
    unfolding s using assms(1) by (rule sort_distinct_keys)
  have 2: "GetSortedPaths spec = sorted_list_of_set (fst ` set (Paths spec))"
    unfolding p using assms(2) by (rule sort_distinct_keys)
  have 3: "GetSortedSchemas spec' = GetSortedSchemas spec"
    if "distinct (map fst (Schemas (Components spec')))
        \<and> fst ` set (Schemas (Components spec')) = fst ` set (Schemas (Components spec))"
  proof -
    from that have "GetSortedSchemas spec'
        = sorted_list_of_set (fst ` set (Schemas (Components spec)))"
      by (simp add: s sort_distinct_keys)
    then show ?thesis by (simp only: 1)
  qed
  have 4: "GetSortedPaths spec' = GetSortedPaths spec"
    if "distinct (map fst (Paths spec')) \<and> fst ` set (Paths spec') = fst ` set (Paths spec)"
  proof -
    from that have "GetSortedPaths spec' = sorted_list_of_set (fst ` set (Paths spec))"
      by (simp add: p sort_distinct_keys)
    then show ?thesis by (simp only: 2)
  qed
  have 5: "sorted (GetSortedSchemas spec) \<and> distinct (GetSortedSchemas spec)
      \<and> set (GetSortedSchemas spec) = fst ` set (Schemas (Components spec))"
    unfolding s using assms(1) by simp
  have 6: "sorted (GetSortedPaths spec) \<and> distinct (GetSortedPaths spec)
      \<and> set (GetSortedPaths spec) = fst ` set (Paths spec)"
    unfolding p using assms(2) by simp
  from 1 2 3 4 5 6 show ?thesis by blast
qed

theorem GetSorted_spec_witness:
  "(let law_type = Schema.Schema [] [] [] [] None ([] :: unit list) [] [] None [] [] [];
        category_cd = Schema.Schema ''string'' [] [] [] None ([] :: unit list) [] [] None [] [] [];
        item = \<lparr>Get = None, Post = None, Put = None, Delete = None\<rparr>;
        info = \<lparr>Title = [], Info.Description = [], Version = []\<rparr>;
        spec = \<lparr>OpenAPI = ''3.0.0'', Info = info, Servers = [],
                 Paths = [(''/laws'', item), (''/keyword'', item)],
                 Components = \<lparr>Schemas = [(''law_type'', law_type), (''category_cd'', category_cd)]\<rparr>\<rparr>;
        spec' = \<lparr>OpenAPI = ''3.0.0'', Info = info, Servers = [],
                 Paths = [(''/keyword'', item), (''/laws'', item)],
                 Components = \<lparr>Schemas = [(''category_cd'', category_cd), (''law_type'', law_type)]\<rparr>\<rparr>
    in GetSortedSchemas spec = [''category_cd'', ''law_type'']
     \<and> GetSortedSchemas spec' = GetSortedSchemas spec
     \<and> GetSortedPaths spec = [''/keyword'', ''/laws'']
     \<and> GetSortedPaths spec' = GetSortedPaths spec)"
proof -
  let ?law_type = "Schema.Schema [] [] [] [] None ([] :: unit list) [] [] None [] [] []"
  let ?category_cd = "Schema.Schema ''string'' [] [] [] None ([] :: unit list) [] [] None [] [] []"
  let ?item = "\<lparr>Get = None, Post = None, Put = None, Delete = None\<rparr> :: unit PathItem"
  let ?info = "\<lparr>Title = [], Info.Description = [], Version = []\<rparr>"
  let ?spec = "\<lparr>OpenAPI = ''3.0.0'', Info = ?info, Servers = [],
                 Paths = [(''/laws'', ?item), (''/keyword'', ?item)],
                 Components = \<lparr>Schemas = [(''law_type'', ?law_type), (''category_cd'', ?category_cd)]\<rparr>\<rparr>"
  let ?spec' = "\<lparr>OpenAPI = ''3.0.0'', Info = ?info, Servers = [],
                 Paths = [(''/keyword'', ?item), (''/laws'', ?item)],
                 Components = \<lparr>Schemas = [(''category_cd'', ?category_cd), (''law_type'', ?law_type)]\<rparr>\<rparr>"
  have d1: "distinct (map fst (Schemas (Components ?spec)))" by simp
  have d2: "distinct (map fst (Paths ?spec))" by simp
  note t = GetSorted_spec [OF d1 d2, where spec' = ?spec']
  have k1: "sorted_list_of_set (fst ` set (Schemas (Components ?spec))) = [''category_cd'', ''law_type'']"
    by code_simp
  have k2: "sorted_list_of_set (fst ` set (Paths ?spec)) = [''/keyword'', ''/laws'']"
    by code_simp
  have 1: "GetSortedSchemas ?spec = [''category_cd'', ''law_type'']"
    using t [THEN conjunct1] by (simp only: k1)
  have 3: "GetSortedPaths ?spec = [''/keyword'', ''/laws'']"
    using t [THEN conjunct2, THEN conjunct2, THEN conjunct2, THEN conjunct2, THEN conjunct1]
    by (simp only: k2)
  have 2: "GetSortedSchemas ?spec' = GetSortedSchemas ?spec"
    by (rule t [THEN conjunct2, THEN conjunct2, THEN conjunct2, THEN conjunct2, THEN conjunct2,
          THEN conjunct2, THEN conjunct2, THEN conjunct2, THEN conjunct1, rule_format])
       (simp, blast)
  have 4: "GetSortedPaths ?spec' = GetSortedPaths ?spec"
    by (rule t [THEN conjunct2, THEN conjunct2, THEN conjunct2, THEN conjunct2, THEN conjunct2,
          THEN conjunct2, THEN conjunct2, THEN conjunct2, THEN conjunct2, rule_format])
       (simp, blast)
  from 1 2 3 4 show ?thesis
    unfolding Let_def by (intro conjI)
qed

section \<open>Properties of the query encoding\<close>

lemma Join_append:
  "Join (xs @ ys) sep =
     (if xs = [] then Join ys sep else if ys = [] then Join xs sep
      else Join xs sep @ sep @ Join ys sep)"
proof (induction xs sep rule: Join.induct)
  case (1 sep)
  then show ?case by simp
next
  case (2 x sep)
  then show ?case by (cases ys) simp_all
next
  case (3 x y ys sep)
  then show ?case by simp
qed

lemma Join_Cons: "Join (x # R) sep = (if R = [] then x else x @ sep @ Join R sep)"
  by (cases R) simp_all

lemma Join_nonempty: "xs \<noteq> [] \<Longrightarrow> list_all (\<lambda>x. x \<noteq> []) xs \<Longrightarrow> Join xs sep \<noteq> []"
  by (induction xs sep rule: Join.induct) simp_all

lemma Join_flatten:
  assumes "list_all (\<lambda>x. x \<noteq> []) L"
  shows "Join ((if Join L sep = [] then [] else [Join L sep]) @ R) sep = Join (L @ R) sep"
proof (cases "L = []")
  case True
  then show ?thesis by simp
next
  case False
  with assms have "Join L sep \<noteq> []" by (simp add: Join_nonempty)
  with False show ?thesis by (simp add: Join_append [of L R] Join_Cons)
qed

lemma Join_middle: "\<exists>pre post. Join (A @ M @ B) sep = pre @ Join M sep @ post"
proof (cases "M = []")
  case True
  then have "Join (A @ M @ B) sep = [] @ Join M sep @ Join (A @ B) sep" by simp
  then show ?thesis by blast
next
  case False
  have "Join (A @ M @ B) sep =
      (if A = [] then [] else Join A sep @ sep) @ Join M sep @ (if B = [] then [] else sep @ Join B sep)"
    using False by (simp add: Join_append)
  then show ?thesis by blast
qed

lemma encodedPair_nonempty: "encodedPair k x \<noteq> []"
  by (simp add: encodedPair_def)

lemma writePair_Join:
  "writePair (QueryEscape k) buf x = Join ((if buf = [] then [] else [buf]) @ [encodedPair k x]) ''&''"
  by (simp add: writePair_def encodedPair_def)

lemma foldl_writePair:
  "foldl (writePair (QueryEscape k)) buf vs
     = Join ((if buf = [] then [] else [buf]) @ map (encodedPair k) vs) ''&''"
proof (induction vs arbitrary: buf)
  case Nil
  then show ?case by simp
next
  case (Cons x vs)
  let ?L = "(if buf = [] then [] else [buf]) @ [encodedPair k x]"
  have L: "list_all (\<lambda>x. x \<noteq> []) ?L" by (simp add: encodedPair_nonempty)
  have "foldl (writePair (QueryEscape k)) buf (x # vs)
      = Join ((if Join ?L ''&'' = [] then [] else [Join ?L ''&'']) @ map (encodedPair k) vs) ''&''"
    by (simp only: foldl_Cons Cons.IH writePair_Join)
  also have "\<dots> = Join (?L @ map (encodedPair k) vs) ''&''"
    by (rule Join_flatten [OF L])
  finally show ?case by simp
qed

lemma foldl_keys:
  "foldl (\<lambda>buf k. foldl (writePair (QueryEscape k)) buf (valuesOf v k)) buf ks
     = Join ((if buf = [] then [] else [buf])
             @ concat (map (\<lambda>k. map (encodedPair k) (valuesOf v k)) ks)) ''&''"
proof (induction ks arbitrary: buf)
  case Nil
  then show ?case by simp
next
  case (Cons k ks)
  let ?L = "(if buf = [] then [] else [buf]) @ map (encodedPair k) (valuesOf v k)"
  let ?R = "concat (map (\<lambda>k. map (encodedPair k) (valuesOf v k)) ks)"
  have L: "list_all (\<lambda>x. x \<noteq> []) ?L" by (simp add: encodedPair_nonempty list_all_iff)
  have "foldl (\<lambda>buf k. foldl (writePair (QueryEscape k)) buf (valuesOf v k)) buf (k # ks)
      = Join ((if Join ?L ''&'' = [] then [] else [Join ?L ''&'']) @ ?R) ''&''"
    by (simp only: foldl_Cons Cons.IH) (simp only: foldl_writePair)
  also have "\<dots> = Join (?L @ ?R) ''&''"
    by (rule Join_flatten [OF L])
  finally show ?case by simp
qed

lemma Encode_Join:
  "Encode v = Join (concat (map (\<lambda>k. map (encodedPair k) (valuesOf v k)) (sort (map fst v)))) ''&''"
  by (cases "v = []") (simp_all add: Encode_def foldl_keys)

lemma Encode_contains:
  assumes "map_of v k = Some vs"
  shows "\<exists>pre post. Encode v = pre @ Join (map (encodedPair k) vs) ''&'' @ post"
proof -
  from assms have "k \<in> set (sort (map fst v))"
    by (auto dest: map_of_SomeD intro: rev_image_eqI)
  then obtain ks1 ks2 where ks: "sort (map fst v) = ks1 @ k # ks2"
    by (meson split_list)
  let ?F = "\<lambda>k. map (encodedPair k) (valuesOf v k)"
  have "Encode v = Join (concat (map ?F ks1) @ map (encodedPair k) vs @ concat (map ?F ks2)) ''&''"
    using assms by (simp add: Encode_Join ks valuesOf_def)
  then show ?thesis using Join_middle by metis
qed

lemma map_of_Set: "map_of (Set v k x) k' = (if k' = k then Some [x] else map_of v k')"
  by (simp add: Set_def update_conv')

lemma map_of_Add:
  "map_of (Add v k x) k' = (if k' = k then Some (valuesOf v k @ [x]) else map_of v k')"
  by (simp add: Add_def update_conv')

lemma map_of_setIf:
  "map_of (setIf v k f x) k' =
     (if k' = k then (case x of None \<Rightarrow> map_of v k | Some y \<Rightarrow> Some [f y]) else map_of v k')"
  by (simp add: setIf_def map_of_Set split: option.split)

lemma map_of_foldl_Add:
  "map_of (foldl (\<lambda>q y. Add q k (f y)) v ys) k' =
     (if k' = k \<and> ys \<noteq> [] then Some (valuesOf v k @ map f ys) else map_of v k')"
proof (induction ys arbitrary: v)
  case Nil
  then show ?case by simp
next
  case (Cons y ys)
  have "valuesOf (Add v k (f y)) k = valuesOf v k @ [f y]"
    by (simp add: valuesOf_def map_of_Add)
  then show ?case by (simp add: Cons.IH map_of_Add)
qed

lemma map_of_addEach:
  "map_of (addEach v k f x) k' =
     (if k' = k then
        (case x of None \<Rightarrow> map_of v k
         | Some ys \<Rightarrow> if ys = [] then map_of v k else Some (valuesOf v k @ map f ys))
      else map_of v k')"
  by (simp add: addEach_def map_of_foldl_Add split: option.split)

lemma urlPath_repeated:
  assumes "map_of q k = Some (map f vs)" and "QueryEscape k = k"
  shows "\<exists>pre post. (if length q > 0 then u @ ''?'' @ Encode q else u)
           = u @ ''?'' @ pre @ repeated k (map f vs) @ post"
proof -
  from assms(1) have q: "q \<noteq> []" by auto
  have p: "encodedPair k = (\<lambda>v. k @ ''='' @ QueryEscape v)"
    by (rule ext) (simp add: encodedPair_def assms(2))
  from Encode_contains [OF assms(1)] obtain pre post
    where "Encode q = pre @ repeated k (map f vs) @ post"
    unfolding p by blast
  with q show ?thesis by auto
qed

lemma QueryEscape_keys:
  "QueryEscape ''law_type'' = ''law_type''"
  "QueryEscape ''category_cd'' = ''category_cd''"
  "QueryEscape ''amendment_type'' = ''amendment_type''"
  "QueryEscape ''current_revision_status'' = ''current_revision_status''"
  "QueryEscape ''mission'' = ''mission''"
  "QueryEscape ''repeal_status'' = ''repeal_status''"
  by code_simp+

lemma GetKeyword_law_type:
  "GetKeywordParams.LawType p = Some vs \<Longrightarrow> vs \<noteq> [] \<Longrightarrow>
     map_of (GetKeyword_queryParams lib p) ''law_type'' = Some (map (Sprintf_v lib) vs)"
  by (simp add: GetKeyword_queryParams_def map_of_Set map_of_setIf map_of_addEach valuesOf_def)

lemma GetKeyword_category_cd:
  "GetKeywordParams.CategoryCd p = Some vs \<Longrightarrow> vs \<noteq> [] \<Longrightarrow>
     map_of (GetKeyword_queryParams lib p) ''category_cd'' = Some (map (Sprintf_v lib) vs)"
  by (simp add: GetKeyword_queryParams_def map_of_Set map_of_setIf map_of_addEach valuesOf_def)

lemma GetRevisions_amendment_type:
  "GetRevisionsParams.AmendmentType p = Some vs \<Longrightarrow> vs \<noteq> [] \<Longrightarrow>
     map_of (GetRevisions_queryParams lib p) ''amendment_type'' = Some (map (Sprintf_v lib) vs)"
  by (simp add: GetRevisions_queryParams_def map_of_Set map_of_setIf map_of_addEach valuesOf_def)

lemma GetRevisions_category_cd:
  "GetRevisionsParams.CategoryCd p = Some vs \<Longrightarrow> vs \<noteq> [] \<Longrightarrow>
     map_of (GetRevisions_queryParams lib p) ''category_cd'' = Some (map (Sprintf_v lib) vs)"
  by (simp add: GetRevisions_queryParams_def map_of_Set map_of_setIf map_of_addEach valuesOf_def)

lemma GetRevisions_current_revision_status:
  "GetRevisionsParams.CurrentRevisionStatus p = Some vs \<Longrightarrow> vs \<noteq> [] \<Longrightarrow>
     map_of (GetRevisions_queryParams lib p) ''current_revision_status'' = Some (map (Sprintf_v lib) vs)"
  by (simp add: GetRevisions_queryParams_def map_of_Set map_of_setIf map_of_addEach valuesOf_def)

lemma GetRevisions_mission:
  "GetRevisionsParams.Mission p = Some vs \<Longrightarrow> vs \<noteq> [] \<Longrightarrow>
     map_of (GetRevisions_queryParams lib p) ''mission'' = Some (map (Sprintf_v lib) vs)"
  by (simp add: GetRevisions_queryParams_def map_of_Set map_of_setIf map_of_addEach valuesOf_def)

lemma GetRevisions_repeal_status:
  "GetRevisionsParams.RepealStatus p = Some vs \<Longrightarrow> vs \<noteq> [] \<Longrightarrow>
     map_of (GetRevisions_queryParams lib p) ''repeal_status'' = Some (map (Sprintf_v lib) vs)"
  by (simp add: GetRevisions_queryParams_def map_of_Set map_of_setIf map_of_addEach valuesOf_def)

lemma GetLaws_law_type:
  "GetLawsParams.LawType p = Some vs \<Longrightarrow> vs \<noteq> [] \<Longrightarrow>
     map_of (GetLaws_queryParams lib p) ''law_type'' = Some (map (Sprintf_v lib) vs)"
  by (simp add: GetLaws_queryParams_def map_of_Set map_of_setIf map_of_addEach valuesOf_def)

lemma GetLaws_category_cd:
  "GetLawsParams.CategoryCd p = Some vs \<Longrightarrow> vs \<noteq> [] \<Longrightarrow>
     map_of (GetLaws_queryParams lib p) ''category_cd'' = Some (map (Sprintf_v lib) vs)"
  by (simp add: GetLaws_queryParams_def map_of_Set map_of_setIf map_of_addEach valuesOf_def)

lemma GetLaws_mission:
  "GetLawsParams.Mission p = Some vs \<Longrightarrow> vs \<noteq> [] \<Longrightarrow>
     map_of (GetLaws_queryParams lib p) ''mission'' = Some (map (Sprintf_v lib) vs)"
  by (simp add: GetLaws_queryParams_def map_of_Set map_of_setIf map_of_addEach valuesOf_def)

lemma GetLaws_repeal_status:
  "GetLawsParams.RepealStatus p = Some vs \<Longrightarrow> vs \<noteq> [] \<Longrightarrow>
     map_of (GetLaws_queryParams lib p) ''repeal_status'' = Some (map (Sprintf_v lib) vs)"
  by (simp add: GetLaws_queryParams_def map_of_Set map_of_setIf map_of_addEach valuesOf_def)

section \<open>Claims about the client\<close>

text \<open>
  Claim C1. In each of the six methods, when the request was created and the transport
  answered it with a response whose status code is 400 or more, the method returns no
  result and the error whose message is \<open>API error\<close>, the status code in decimal, a
  colon and the bytes read from the body of the response, unchanged. The witness is a
  response with status 404 and the body \<open>not found\<close>.
\<close>

theorem api_error:
  assumes "StatusCode resp \<ge> 400"
  shows "(NewRequest lib ''GET'' (GetAttachment_urlPath lib c lawRevisionId pa) = Inr req1
            \<and> httpClient c req1 = Inr resp
          \<longrightarrow> GetAttachment lib c lawRevisionId pa
                = Inl (Error (''API error '' @ Sprintf_d (StatusCode resp) @ '': ''
                              @ fst (ReadAll (Body resp))) None))
       \<and> (NewRequest lib ''GET'' (GetKeyword_urlPath lib c pk) = Inr req2
            \<and> httpClient c req2 = Inr resp
          \<longrightarrow> GetKeyword lib Decode2 c pk
                = Inl (Error (''API error '' @ Sprintf_d (StatusCode resp) @ '': ''
                              @ fst (ReadAll (Body resp))) None))
       \<and> (NewRequest lib ''GET'' (GetLawData_urlPath lib c lawIdOrNumOrRevisionId pd) = Inr req3
            \<and> httpClient c req3 = Inr resp
          \<longrightarrow> GetLawData lib Decode3 c lawIdOrNumOrRevisionId pd
                = Inl (Error (''API error '' @ Sprintf_d (StatusCode resp) @ '': ''
                              @ fst (ReadAll (Body resp))) None))
       \<and> (NewRequest lib ''GET'' (GetLawFile_urlPath lib c lawIdOrNumOrRevisionId fileType pf) = Inr req4
            \<and> httpClient c req4 = Inr resp
          \<longrightarrow> GetLawFile lib c lawIdOrNumOrRevisionId fileType pf
                = Inl (Error (''API error '' @ Sprintf_d (StatusCode resp) @ '': ''
                              @ fst (ReadAll (Body resp))) None))
       \<and> (NewRequest lib ''GET'' (GetRevisions_urlPath lib c lawIdOrNum pr) = Inr req5
            \<and> httpClient c req5 = Inr resp
          \<longrightarrow> GetRevisions lib Decode5 c lawIdOrNum pr
                = Inl (Error (''API error '' @ Sprintf_d (StatusCode resp) @ '': ''
                              @ fst (ReadAll (Body resp))) None))
       \<and> (NewRequest lib ''GET'' (GetLaws_urlPath lib c pl) = Inr req6
            \<and> httpClient c req6 = Inr resp
          \<longrightarrow> GetLaws lib Decode6 c pl
                = Inl (Error (''API error '' @ Sprintf_d (StatusCode resp) @ '': ''
                              @ fst (ReadAll (Body resp))) None))"
proof (intro conjI impI)
  show "GetAttachment lib c lawRevisionId pa
      = Inl (Error (''API error '' @ Sprintf_d (StatusCode resp) @ '': '' @ fst (ReadAll (Body resp))) None)"
    if "NewRequest lib ''GET'' (GetAttachment_urlPath lib c lawRevisionId pa) = Inr req1
          \<and> httpClient c req1 = Inr resp"
    using that assms by (simp add: GetAttachment_def Errorf_API_def case_prod_beta)
  show "GetKeyword lib Decode2 c pk
      = Inl (Error (''API error '' @ Sprintf_d (StatusCode resp) @ '': '' @ fst (ReadAll (Body resp))) None)"
    if "NewRequest lib ''GET'' (GetKeyword_urlPath lib c pk) = Inr req2 \<and> httpClient c req2 = Inr resp"
    using that assms by (simp add: GetKeyword_def Errorf_API_def case_prod_beta)
  show "GetLawData lib Decode3 c lawIdOrNumOrRevisionId pd
      = Inl (Error (''API error '' @ Sprintf_d (StatusCode resp) @ '': '' @ fst (ReadAll (Body resp))) None)"
    if "NewRequest lib ''GET'' (GetLawData_urlPath lib c lawIdOrNumOrRevisionId pd) = Inr req3
          \<and> httpClient c req3 = Inr resp"
    using that assms by (simp add: GetLawData_def Errorf_API_def case_prod_beta)
  show "GetLawFile lib c lawIdOrNumOrRevisionId fileType pf
      = Inl (Error (''API error '' @ Sprintf_d (StatusCode resp) @ '': '' @ fst (ReadAll (Body resp))) None)"
    if "NewRequest lib ''GET'' (GetLawFile_urlPath lib c lawIdOrNumOrRevisionId fileType pf) = Inr req4
          \<and> httpClient c req4 = Inr resp"
    using that assms by (simp add: GetLawFile_def Errorf_API_def case_prod_beta)
  show "GetRevisions lib Decode5 c lawIdOrNum pr
      = Inl (Error (''API error '' @ Sprintf_d (StatusCode resp) @ '': '' @ fst (ReadAll (Body resp))) None)"
    if "NewRequest lib ''GET'' (GetRevisions_urlPath lib c lawIdOrNum pr) = Inr req5
          \<and> httpClient c req5 = Inr resp"
    using that assms by (simp add: GetRevisions_def Errorf_API_def case_prod_beta)
  show "GetLaws lib Decode6 c pl
      = Inl (Error (''API error '' @ Sprintf_d (StatusCode resp) @ '': '' @ fst (ReadAll (Body resp))) None)"
    if "NewRequest lib ''GET'' (GetLaws_urlPath lib c pl) = Inr req6 \<and> httpClient c req6 = Inr resp"
    using that assms by (simp add: GetLaws_def Errorf_API_def case_prod_beta)
qed


theorem api_error_witness:
  "(let resp = \<lparr>StatusCode = 404, Body = (''not found'', None)\<rparr>;
        lib = \<lparr>NewRequest = (\<lambda>m u. Inr \<lparr>Method = m, RawURL = u\<rparr>), Sprintf_v = (\<lambda>v :: string. v)\<rparr>;
        c = \<lparr>baseURL = ''http://h'', httpClient = (\<lambda>r. Inr resp)\<rparr>;
        dec = (\<lambda>b :: body. Inr (fst b) :: error + string)
    in GetAttachment lib c ''x'' None = Inl (Error ''API error 404: not found'' None)
     \<and> GetKeyword lib dec c None = Inl (Error ''API error 404: not found'' None)
     \<and> GetLawData lib dec c ''x'' None = Inl (Error ''API error 404: not found'' None)
     \<and> GetLawFile lib c ''x'' ''pdf'' None = Inl (Error ''API error 404: not found'' None)
     \<and> GetRevisions lib dec c ''x'' None = Inl (Error ''API error 404: not found'' None)
     \<and> GetLaws lib dec c None = Inl (Error ''API error 404: not found'' None))"
proof -
  let ?resp = "\<lparr>StatusCode = 404, Body = (''not found'', None)\<rparr>"
  let ?lib = "\<lparr>NewRequest = (\<lambda>m u. Inr \<lparr>Method = m, RawURL = u\<rparr>), Sprintf_v = (\<lambda>v :: string. v)\<rparr>"
  let ?c = "\<lparr>baseURL = ''http://h'', httpClient = (\<lambda>r. Inr ?resp)\<rparr>"
  let ?dec = "(\<lambda>b :: body. Inr (fst b) :: error + string)"
  have m: "''API error '' @ Sprintf_d (StatusCode ?resp) @ '': '' @ fst (ReadAll (Body ?resp))
      = ''API error 404: not found''"
    by code_simp
  have "GetAttachment ?lib ?c ''x'' None
      = Inl (Error (''API error '' @ Sprintf_d (StatusCode ?resp) @ '': ''
                    @ fst (ReadAll (Body ?resp))) None)"
  proof (rule api_error [where resp = ?resp, THEN conjunct1, rule_format])
    show "StatusCode ?resp \<ge> 400" by simp
    show "NewRequest ?lib ''GET'' (GetAttachment_urlPath ?lib ?c ''x'' None)
            = Inr \<lparr>Method = ''GET'', RawURL = GetAttachment_urlPath ?lib ?c ''x'' None\<rparr>
          \<and> httpClient ?c \<lparr>Method = ''GET'', RawURL = GetAttachment_urlPath ?lib ?c ''x'' None\<rparr>
            = Inr ?resp" by simp
  qed
  then have w1: "GetAttachment ?lib ?c ''x'' None = Inl (Error ''API error 404: not found'' None)"
    by (simp only: m)
  have "GetKeyword ?lib ?dec ?c None
      = Inl (Error (''API error '' @ Sprintf_d (StatusCode ?resp) @ '': ''
                    @ fst (ReadAll (Body ?resp))) None)"
  proof (rule api_error [where resp = ?resp, THEN conjunct2, THEN conjunct1, rule_format])
    show "StatusCode ?resp \<ge> 400" by simp
    show "NewRequest ?lib ''GET'' (GetKeyword_urlPath ?lib ?c None)
            = Inr \<lparr>Method = ''GET'', RawURL = GetKeyword_urlPath ?lib ?c None\<rparr>
          \<and> httpClient ?c \<lparr>Method = ''GET'', RawURL = GetKeyword_urlPath ?lib ?c None\<rparr>
            = Inr ?resp" by simp
  qed
  then have w2: "GetKeyword ?lib ?dec ?c None = Inl (Error ''API error 404: not found'' None)"
    by (simp only: m)
  have "GetLawData ?lib ?dec ?c ''x'' None
      = Inl (Error (''API error '' @ Sprintf_d (StatusCode ?resp) @ '': ''
                    @ fst (ReadAll (Body ?resp))) None)"
  proof (rule api_error [where resp = ?resp, THEN conjunct2, THEN conjunct2, THEN conjunct1, rule_format])
    show "StatusCode ?resp \<ge> 400" by simp
    show "NewRequest ?lib ''GET'' (GetLawData_urlPath ?lib ?c ''x'' None)
            = Inr \<lparr>Method = ''GET'', RawURL = GetLawData_urlPath ?lib ?c ''x'' None\<rparr>
          \<and> httpClient ?c \<lparr>Method = ''GET'', RawURL = GetLawData_urlPath ?lib ?c ''x'' None\<rparr>
            = Inr ?resp" by simp
  qed
  then have w3: "GetLawData ?lib ?dec ?c ''x'' None = Inl (Error ''API error 404: not found'' None)"
    by (simp only: m)
  have "GetLawFile ?lib ?c ''x'' ''pdf'' None
      = Inl (Error (''API error '' @ Sprintf_d (StatusCode ?resp) @ '': ''
                    @ fst (ReadAll (Body ?resp))) None)"
  proof (rule api_error [where resp = ?resp, THEN conjunct2, THEN conjunct2, THEN conjunct2, THEN conjunct1, rule_format])
    show "StatusCode ?resp \<ge> 400" by simp
    show "NewRequest ?lib ''GET'' (GetLawFile_urlPath ?lib ?c ''x'' ''pdf'' None)
            = Inr \<lparr>Method = ''GET'', RawURL = GetLawFile_urlPath ?lib ?c ''x'' ''pdf'' None\<rparr>
          \<and> httpClient ?c \<lparr>Method = ''GET'', RawURL = GetLawFile_urlPath ?lib ?c ''x'' ''pdf'' None\<rparr>
            = Inr ?resp" by simp
  qed
  then have w4: "GetLawFile ?lib ?c ''x'' ''pdf'' None = Inl (Error ''API error 404: not found'' None)"
    by (simp only: m)
  have "GetRevisions ?lib ?dec ?c ''x'' None
      = Inl (Error (''API error '' @ Sprintf_d (StatusCode ?resp) @ '': ''
                    @ fst (ReadAll (Body ?resp))) None)"
  proof (rule api_error [where resp = ?resp, THEN conjunct2, THEN conjunct2, THEN conjunct2, THEN conjunct2, THEN conjunct1, rule_format])
    show "StatusCode ?resp \<ge> 400" by simp
    show "NewRequest ?lib ''GET'' (GetRevisions_urlPath ?lib ?c ''x'' None)
            = Inr \<lparr>Method = ''GET'', RawURL = GetRevisions_urlPath ?lib ?c ''x'' None\<rparr>
          \<and> httpClient ?c \<lparr>Method = ''GET'', RawURL = GetRevisions_urlPath ?lib ?c ''x'' None\<rparr>
            = Inr ?resp" by simp
  qed
  then have w5: "GetRevisions ?lib ?dec ?c ''x'' None = Inl (Error ''API error 404: not found'' None)"
    by (simp only: m)
  have "GetLaws ?lib ?dec ?c None
      = Inl (Error (''API error '' @ Sprintf_d (StatusCode ?resp) @ '': ''
                    @ fst (ReadAll (Body ?resp))) None)"
  proof (rule api_error [where resp = ?resp, THEN conjunct2, THEN conjunct2, THEN conjunct2, THEN conjunct2, THEN conjunct2, rule_format])
    show "StatusCode ?resp \<ge> 400" by simp
    show "NewRequest ?lib ''GET'' (GetLaws_urlPath ?lib ?c None)
            = Inr \<lparr>Method = ''GET'', RawURL = GetLaws_urlPath ?lib ?c None\<rparr>
          \<and> httpClient ?c \<lparr>Method = ''GET'', RawURL = GetLaws_urlPath ?lib ?c None\<rparr>
            = Inr ?resp" by simp
  qed
  then have w6: "GetLaws ?lib ?dec ?c None = Inl (Error ''API error 404: not found'' None)"
    by (simp only: m)
  from w1 w2 w3 w4 w5 w6 show ?thesis
    unfolding Let_def by (intro conjI)
qed

text \<open>
  Claim C9. In each method, for each optional field that holds a sequence: when the
  field is set to a sequence \<open>vs\<close> that is not empty, the URL is the path, \<open>?\<close>, and a
  query string in which the pairs \<open>key=v\<close> for the elements \<open>v\<close> of \<open>vs\<close>, each
  formatted and escaped, stand next to each other in the order of \<open>vs\<close>, joined by
  \<open>&\<close>, where \<open>key\<close> is the name of the parameter as the specification declares it.
  The methods with such fields are \<open>GetKeyword\<close>, \<open>GetRevisions\<close> and \<open>GetLaws\<close>. The
  witness sets every such field to \<open>["a", "b"]\<close>.
\<close>

theorem query_repeated:
  "(GetKeywordParams.LawType pk = Some vs \<and> vs \<noteq> [] \<longrightarrow>
          (\<exists>pre post. GetKeyword_urlPath lib c (Some pk)
             = (baseURL c @ ''/keyword'') @ ''?''
                @ pre @ repeated ''law_type'' (map (Sprintf_v lib) vs) @ post))
     \<and> (GetKeywordParams.CategoryCd pk = Some vs \<and> vs \<noteq> [] \<longrightarrow>
          (\<exists>pre post. GetKeyword_urlPath lib c (Some pk)
             = (baseURL c @ ''/keyword'') @ ''?''
                @ pre @ repeated ''category_cd'' (map (Sprintf_v lib) vs) @ post))
     \<and> (GetRevisionsParams.AmendmentType pr = Some vs \<and> vs \<noteq> [] \<longrightarrow>
          (\<exists>pre post. GetRevisions_urlPath lib c lawIdOrNum (Some pr)
             = (baseURL c @ ''/law_revisions'' @ ''/'' @ lawIdOrNum) @ ''?''
                @ pre @ repeated ''amendment_type'' (map (Sprintf_v lib) vs) @ post))
     \<and> (GetRevisionsParams.CategoryCd pr = Some vs \<and> vs \<noteq> [] \<longrightarrow>
          (\<exists>pre post. GetRevisions_urlPath lib c lawIdOrNum (Some pr)
             = (baseURL c @ ''/law_revisions'' @ ''/'' @ lawIdOrNum) @ ''?''
                @ pre @ repeated ''category_cd'' (map (Sprintf_v lib) vs) @ post))
     \<and> (GetRevisionsParams.CurrentRevisionStatus pr = Some vs \<and> vs \<noteq> [] \<longrightarrow>
          (\<exists>pre post. GetRevisions_urlPath lib c lawIdOrNum (Some pr)
             = (baseURL c @ ''/law_revisions'' @ ''/'' @ lawIdOrNum) @ ''?''
                @ pre @ repeated ''current_revision_status'' (map (Sprintf_v lib) vs) @ post))
     \<and> (GetRevisionsParams.Mission pr = Some vs \<and> vs \<noteq> [] \<longrightarrow>
          (\<exists>pre post. GetRevisions_urlPath lib c lawIdOrNum (Some pr)
             = (baseURL c @ ''/law_revisions'' @ ''/'' @ lawIdOrNum) @ ''?''
                @ pre @ repeated ''mission'' (map (Sprintf_v lib) vs) @ post))
     \<and> (GetRevisionsParams.RepealStatus pr = Some vs \<and> vs \<noteq> [] \<longrightarrow>
          (\<exists>pre post. GetRevisions_urlPath lib c lawIdOrNum (Some pr)
             = (baseURL c @ ''/law_revisions'' @ ''/'' @ lawIdOrNum) @ ''?''
                @ pre @ repeated ''repeal_status'' (map (Sprintf_v lib) vs) @ post))
     \<and> (GetLawsParams.LawType pl = Some vs \<and> vs \<noteq> [] \<longrightarrow>
          (\<exists>pre post. GetLaws_urlPath lib c (Some pl)
             = (baseURL c @ ''/laws'') @ ''?''
                @ pre @ repeated ''law_type'' (map (Sprintf_v lib) vs) @ post))
     \<and> (GetLawsParams.CategoryCd pl = Some vs \<and> vs \<noteq> [] \<longrightarrow>
          (\<exists>pre post. GetLaws_urlPath lib c (Some pl)
             = (baseURL c @ ''/laws'') @ ''?''
                @ pre @ repeated ''category_cd'' (map (Sprintf_v lib) vs) @ post))
     \<and> (GetLawsParams.Mission pl = Some vs \<and> vs \<noteq> [] \<longrightarrow>
          (\<exists>pre post. GetLaws_urlPath lib c (Some pl)
             = (baseURL c @ ''/laws'') @ ''?''
                @ pre @ repeated ''mission'' (map (Sprintf_v lib) vs) @ post))
     \<and> (GetLawsParams.RepealStatus pl = Some vs \<and> vs \<noteq> [] \<longrightarrow>
          (\<exists>pre post. GetLaws_urlPath lib c (Some pl)
             = (baseURL c @ ''/laws'') @ ''?''
                @ pre @ repeated ''repeal_status'' (map (Sprintf_v lib) vs) @ post))"
proof (intro conjI impI)
  show "\<exists>pre post. GetKeyword_urlPath lib c (Some pk)
             = (baseURL c @ ''/keyword'') @ ''?''
                @ pre @ repeated ''law_type'' (map (Sprintf_v lib) vs) @ post"
    if h: "GetKeywordParams.LawType pk = Some vs \<and> vs \<noteq> []"
  proof -
    from h have q: "map_of (GetKeyword_queryParams lib pk) ''law_type'' = Some (map (Sprintf_v lib) vs)"
      by (simp add: GetKeyword_law_type)
    show ?thesis
      unfolding GetKeyword_urlPath_def Let_def option.case
      by (rule urlPath_repeated [OF q QueryEscape_keys(1)])
  qed
  show "\<exists>pre post. GetKeyword_urlPath lib c (Some pk)
             = (baseURL c @ ''/keyword'') @ ''?''
                @ pre @ repeated ''category_cd'' (map (Sprintf_v lib) vs) @ post"
    if h: "GetKeywordParams.CategoryCd pk = Some vs \<and> vs \<noteq> []"
  proof -
    from h have q: "map_of (GetKeyword_queryParams lib pk) ''category_cd'' = Some (map (Sprintf_v lib) vs)"
      by (simp add: GetKeyword_category_cd)
    show ?thesis
      unfolding GetKeyword_urlPath_def Let_def option.case
      by (rule urlPath_repeated [OF q QueryEscape_keys(2)])
  qed
  show "\<exists>pre post. GetRevisions_urlPath lib c lawIdOrNum (Some pr)
             = (baseURL c @ ''/law_revisions'' @ ''/'' @ lawIdOrNum) @ ''?''
                @ pre @ repeated ''amendment_type'' (map (Sprintf_v lib) vs) @ post"
    if h: "GetRevisionsParams.AmendmentType pr = Some vs \<and> vs \<noteq> []"
  proof -
    from h have q: "map_of (GetRevisions_queryParams lib pr) ''amendment_type'' = Some (map (Sprintf_v lib) vs)"
      by (simp add: GetRevisions_amendment_type)
    show ?thesis
      unfolding GetRevisions_urlPath_def Let_def option.case
      by (rule urlPath_repeated [OF q QueryEscape_keys(3)])
  qed
  show "\<exists>pre post. GetRevisions_urlPath lib c lawIdOrNum (Some pr)
             = (baseURL c @ ''/law_revisions'' @ ''/'' @ lawIdOrNum) @ ''?''
                @ pre @ repeated ''category_cd'' (map (Sprintf_v lib) vs) @ post"
    if h: "GetRevisionsParams.CategoryCd pr = Some vs \<and> vs \<noteq> []"
  proof -
    from h have q: "map_of (GetRevisions_queryParams lib pr) ''category_cd'' = Some (map (Sprintf_v lib) vs)"
      by (simp add: GetRevisions_category_cd)
    show ?thesis
      unfolding GetRevisions_urlPath_def Let_def option.case
      by (rule urlPath_repeated [OF q QueryEscape_keys(2)])
  qed
  show "\<exists>pre post. GetRevisions_urlPath lib c lawIdOrNum (Some pr)
             = (baseURL c @ ''/law_revisions'' @ ''/'' @ lawIdOrNum) @ ''?''
                @ pre @ repeated ''current_revision_status'' (map (Sprintf_v lib) vs) @ post"
    if h: "GetRevisionsParams.CurrentRevisionStatus pr = Some vs \<and> vs \<noteq> []"
  proof -
    from h have q: "map_of (GetRevisions_queryParams lib pr) ''current_revision_status'' = Some (map (Sprintf_v lib) vs)"
      by (simp add: GetRevisions_current_revision_status)
    show ?thesis
      unfolding GetRevisions_urlPath_def Let_def option.case
      by (rule urlPath_repeated [OF q QueryEscape_keys(4)])
  qed
  show "\<exists>pre post. GetRevisions_urlPath lib c lawIdOrNum (Some pr)
             = (baseURL c @ ''/law_revisions'' @ ''/'' @ lawIdOrNum) @ ''?''
                @ pre @ repeated ''mission'' (map (Sprintf_v lib) vs) @ post"
    if h: "GetRevisionsParams.Mission pr = Some vs \<and> vs \<noteq> []"
  proof -
    from h have q: "map_of (GetRevisions_queryParams lib pr) ''mission'' = Some (map (Sprintf_v lib) vs)"
      by (simp add: GetRevisions_mission)
    show ?thesis
      unfolding GetRevisions_urlPath_def Let_def option.case
      by (rule urlPath_repeated [OF q QueryEscape_keys(5)])
  qed
  show "\<exists>pre post. GetRevisions_urlPath lib c lawIdOrNum (Some pr)
             = (baseURL c @ ''/law_revisions'' @ ''/'' @ lawIdOrNum) @ ''?''
                @ pre @ repeated ''repeal_status'' (map (Sprintf_v lib) vs) @ post"
    if h: "GetRevisionsParams.RepealStatus pr = Some vs \<and> vs \<noteq> []"
  proof -
    from h have q: "map_of (GetRevisions_queryParams lib pr) ''repeal_status'' = Some (map (Sprintf_v lib) vs)"
      by (simp add: GetRevisions_repeal_status)
    show ?thesis
      unfolding GetRevisions_urlPath_def Let_def option.case
      by (rule urlPath_repeated [OF q QueryEscape_keys(6)])
  qed
  show "\<exists>pre post. GetLaws_urlPath lib c (Some pl)
             = (baseURL c @ ''/laws'') @ ''?''
                @ pre @ repeated ''law_type'' (map (Sprintf_v lib) vs) @ post"
    if h: "GetLawsParams.LawType pl = Some vs \<and> vs \<noteq> []"
  proof -
    from h have q: "map_of (GetLaws_queryParams lib pl) ''law_type'' = Some (map (Sprintf_v lib) vs)"
      by (simp add: GetLaws_law_type)
    show ?thesis
      unfolding GetLaws_urlPath_def Let_def option.case
      by (rule urlPath_repeated [OF q QueryEscape_keys(1)])
  qed
  show "\<exists>pre post. GetLaws_urlPath lib c (Some pl)
             = (baseURL c @ ''/laws'') @ ''?''
                @ pre @ repeated ''category_cd'' (map (Sprintf_v lib) vs) @ post"
    if h: "GetLawsParams.CategoryCd pl = Some vs \<and> vs \<noteq> []"
  proof -
    from h have q: "map_of (GetLaws_queryParams lib pl) ''category_cd'' = Some (map (Sprintf_v lib) vs)"
      by (simp add: GetLaws_category_cd)
    show ?thesis
      unfolding GetLaws_urlPath_def Let_def option.case
      by (rule urlPath_repeated [OF q QueryEscape_keys(2)])
  qed
  show "\<exists>pre post. GetLaws_urlPath lib c (Some pl)
             = (baseURL c @ ''/laws'') @ ''?''
                @ pre @ repeated ''mission'' (map (Sprintf_v lib) vs) @ post"
    if h: "GetLawsParams.Mission pl = Some vs \<and> vs \<noteq> []"
  proof -
    from h have q: "map_of (GetLaws_queryParams lib pl) ''mission'' = Some (map (Sprintf_v lib) vs)"
      by (simp add: GetLaws_mission)
    show ?thesis
      unfolding GetLaws_urlPath_def Let_def option.case
      by (rule urlPath_repeated [OF q QueryEscape_keys(5)])
  qed
  show "\<exists>pre post. GetLaws_urlPath lib c (Some pl)
             = (baseURL c @ ''/laws'') @ ''?''
                @ pre @ repeated ''repeal_status'' (map (Sprintf_v lib) vs) @ post"
    if h: "GetLawsParams.RepealStatus pl = Some vs \<and> vs \<noteq> []"
  proof -
    from h have q: "map_of (GetLaws_queryParams lib pl) ''repeal_status'' = Some (map (Sprintf_v lib) vs)"
      by (simp add: GetLaws_repeal_status)
    show ?thesis
      unfolding GetLaws_urlPath_def Let_def option.case
      by (rule urlPath_repeated [OF q QueryEscape_keys(6)])
  qed
qed

theorem query_repeated_witness:
  "(let lib = \<lparr>NewRequest = (\<lambda>m u. Inr \<lparr>Method = m, RawURL = u\<rparr>), Sprintf_v = (\<lambda>v :: string. v)\<rparr>;
        c = \<lparr>baseURL = ''http://h'', httpClient = (\<lambda>r. Inl (Error ''down'' None))\<rparr>;
        pk = \<lparr>GetKeywordParams.Keyword = ''k'', GetKeywordParams.LawNum = None,
             GetKeywordParams.LawNumEra = None, GetKeywordParams.LawNumNum = None,
             GetKeywordParams.LawNumType = None, GetKeywordParams.LawNumYear = None,
             GetKeywordParams.LawType = Some [''a'', ''b''], GetKeywordParams.Asof = None,
             GetKeywordParams.CategoryCd = Some [''a'', ''b''],
             GetKeywordParams.PromulgationDateFrom = None,
             GetKeywordParams.PromulgationDateTo = None, GetKeywordParams.Limit = None,
             GetKeywordParams.Offset = None, GetKeywordParams.Order = None,
             GetKeywordParams.ResponseFormat = None, GetKeywordParams.SentencesLimit = None,
             GetKeywordParams.SentenceTextSize = None, GetKeywordParams.HighlightTag = None\<rparr>;
        pr = \<lparr>GetRevisionsParams.LawTitle = None, GetRevisionsParams.LawTitleKana = None,
             GetRevisionsParams.AmendmentDateFrom = None,
             GetRevisionsParams.AmendmentDateTo = None,
             GetRevisionsParams.AmendmentLawId = None,
             GetRevisionsParams.AmendmentLawNum = None,
             GetRevisionsParams.AmendmentLawTitle = None,
             GetRevisionsParams.AmendmentLawTitleKana = None,
             GetRevisionsParams.AmendmentPromulgateDateFrom = None,
             GetRevisionsParams.AmendmentPromulgateDateTo = None,
             GetRevisionsParams.AmendmentType = Some [''a'', ''b''],
             GetRevisionsParams.CategoryCd = Some [''a'', ''b''],
             GetRevisionsParams.CurrentRevisionStatus = Some [''a'', ''b''],
             GetRevisionsParams.Mission = Some [''a'', ''b''],
             GetRevisionsParams.RemainInForce = None, GetRevisionsParams.RepealDateFrom = None,
             GetRevisionsParams.RepealDateTo = None,
             GetRevisionsParams.RepealStatus = Some [''a'', ''b''],
             GetRevisionsParams.UpdatedFrom = None, GetRevisionsParams.UpdatedTo = None,
             GetRevisionsParams.ResponseFormat = None\<rparr>;
        pl = \<lparr>GetLawsParams.LawId = None, GetLawsParams.LawNum = None,
             GetLawsParams.LawNumEra = None, GetLawsParams.LawNumNum = None,
             GetLawsParams.LawNumType = None, GetLawsParams.LawNumYear = None,
             GetLawsParams.LawTitle = None, GetLawsParams.LawTitleKana = None,
             GetLawsParams.LawType = Some [''a'', ''b''], GetLawsParams.AmendmentLawId = None,
             GetLawsParams.Asof = None, GetLawsParams.CategoryCd = Some [''a'', ''b''],
             GetLawsParams.Mission = Some [''a'', ''b''],
             GetLawsParams.OmitCurrentRevisionInfo = None,
             GetLawsParams.PromulgationDateFrom = None, GetLawsParams.PromulgationDateTo = None,
             GetLawsParams.RepealStatus = Some [''a'', ''b''], GetLawsParams.Limit = None,
             GetLawsParams.Offset = None, GetLawsParams.Order = None,
             GetLawsParams.ResponseFormat = None\<rparr>
    in (\<exists>pre post. GetKeyword_urlPath lib c (Some pk)
            = ''http://h/keyword?'' @ pre @ ''law_type=a&law_type=b'' @ post)
     \<and> (\<exists>pre post. GetKeyword_urlPath lib c (Some pk)
            = ''http://h/keyword?'' @ pre @ ''category_cd=a&category_cd=b'' @ post)
     \<and> (\<exists>pre post. GetRevisions_urlPath lib c ''x'' (Some pr)
            = ''http://h/law_revisions/x?'' @ pre @ ''amendment_type=a&amendment_type=b'' @ post)
     \<and> (\<exists>pre post. GetRevisions_urlPath lib c ''x'' (Some pr)
            = ''http://h/law_revisions/x?'' @ pre @ ''category_cd=a&category_cd=b'' @ post)
     \<and> (\<exists>pre post. GetRevisions_urlPath lib c ''x'' (Some pr)
            = ''http://h/law_revisions/x?'' @ pre @ ''current_revision_status=a&current_revision_status=b'' @ post)
     \<and> (\<exists>pre post. GetRevisions_urlPath lib c ''x'' (Some pr)
            = ''http://h/law_revisions/x?'' @ pre @ ''mission=a&mission=b'' @ post)
     \<and> (\<exists>pre post. GetRevisions_urlPath lib c ''x'' (Some pr)
            = ''http://h/law_revisions/x?'' @ pre @ ''repeal_status=a&repeal_status=b'' @ post)
     \<and> (\<exists>pre post. GetLaws_urlPath lib c (Some pl)
            = ''http://h/laws?'' @ pre @ ''law_type=a&law_type=b'' @ post)
     \<and> (\<exists>pre post. GetLaws_urlPath lib c (Some pl)
            = ''http://h/laws?'' @ pre @ ''category_cd=a&category_cd=b'' @ post)
     \<and> (\<exists>pre post. GetLaws_urlPath lib c (Some pl)
            = ''http://h/laws?'' @ pre @ ''mission=a&mission=b'' @ post)
     \<and> (\<exists>pre post. GetLaws_urlPath lib c (Some pl)
            = ''http://h/laws?'' @ pre @ ''repeal_status=a&repeal_status=b'' @ post))"
proof -
  let ?lib = "\<lparr>NewRequest = (\<lambda>m u. Inr \<lparr>Method = m, RawURL = u\<rparr>), Sprintf_v = (\<lambda>v :: string. v)\<rparr>"
  let ?c = "\<lparr>baseURL = ''http://h'', httpClient = (\<lambda>r. Inl (Error ''down'' None))\<rparr>"
  let ?pk = "\<lparr>GetKeywordParams.Keyword = ''k'', GetKeywordParams.LawNum = None,
        GetKeywordParams.LawNumEra = None, GetKeywordParams.LawNumNum = None,
        GetKeywordParams.LawNumType = None, GetKeywordParams.LawNumYear = None,
        GetKeywordParams.LawType = Some [''a'', ''b''], GetKeywordParams.Asof = None,
        GetKeywordParams.CategoryCd = Some [''a'', ''b''],
        GetKeywordParams.PromulgationDateFrom = None,
        GetKeywordParams.PromulgationDateTo = None, GetKeywordParams.Limit = None,
        GetKeywordParams.Offset = None, GetKeywordParams.Order = None,
        GetKeywordParams.ResponseFormat = None, GetKeywordParams.SentencesLimit = None,
        GetKeywordParams.SentenceTextSize = None, GetKeywordParams.HighlightTag = None\<rparr>"
  let ?pr = "\<lparr>GetRevisionsParams.LawTitle = None, GetRevisionsParams.LawTitleKana = None,
        GetRevisionsParams.AmendmentDateFrom = None,
        GetRevisionsParams.AmendmentDateTo = None,
        GetRevisionsParams.AmendmentLawId = None,
        GetRevisionsParams.AmendmentLawNum = None,
        GetRevisionsParams.AmendmentLawTitle = None,
        GetRevisionsParams.AmendmentLawTitleKana = None,
        GetRevisionsParams.AmendmentPromulgateDateFrom = None,
        GetRevisionsParams.AmendmentPromulgateDateTo = None,
        GetRevisionsParams.AmendmentType = Some [''a'', ''b''],
        GetRevisionsParams.CategoryCd = Some [''a'', ''b''],
        GetRevisionsParams.CurrentRevisionStatus = Some [''a'', ''b''],
        GetRevisionsParams.Mission = Some [''a'', ''b''],
        GetRevisionsParams.RemainInForce = None, GetRevisionsParams.RepealDateFrom = None,
        GetRevisionsParams.RepealDateTo = None,
        GetRevisionsParams.RepealStatus = Some [''a'', ''b''],
        GetRevisionsParams.UpdatedFrom = None, GetRevisionsParams.UpdatedTo = None,
        GetRevisionsParams.ResponseFormat = None\<rparr>"
  let ?pl = "\<lparr>GetLawsParams.LawId = None, GetLawsParams.LawNum = None,
        GetLawsParams.LawNumEra = None, GetLawsParams.LawNumNum = None,
        GetLawsParams.LawNumType = None, GetLawsParams.LawNumYear = None,
        GetLawsParams.LawTitle = None, GetLawsParams.LawTitleKana = None,
        GetLawsParams.LawType = Some [''a'', ''b''], GetLawsParams.AmendmentLawId = None,
        GetLawsParams.Asof = None, GetLawsParams.CategoryCd = Some [''a'', ''b''],
        GetLawsParams.Mission = Some [''a'', ''b''],
        GetLawsParams.OmitCurrentRevisionInfo = None,
        GetLawsParams.PromulgationDateFrom = None, GetLawsParams.PromulgationDateTo = None,
        GetLawsParams.RepealStatus = Some [''a'', ''b''], GetLawsParams.Limit = None,
        GetLawsParams.Offset = None, GetLawsParams.Order = None,
        GetLawsParams.ResponseFormat = None\<rparr>"
  have e: "QueryEscape ''a'' = ''a''" "QueryEscape ''b'' = ''b''" by code_simp+
  have "\<exists>pre post. GetKeyword_urlPath ?lib ?c (Some ?pk)
        = (baseURL ?c @ ''/keyword'') @ ''?''
                @ pre @ repeated ''law_type'' (map (Sprintf_v ?lib) [''a'', ''b'']) @ post"
    by (rule query_repeated [where vs = "[''a'', ''b'']", THEN conjunct1, rule_format]) simp
  then have w1: "\<exists>pre post. GetKeyword_urlPath ?lib ?c (Some ?pk)
        = ''http://h/keyword?'' @ pre @ ''law_type=a&law_type=b'' @ post"
    by (simp add: e)
  have "\<exists>pre post. GetKeyword_urlPath ?lib ?c (Some ?pk)
        = (baseURL ?c @ ''/keyword'') @ ''?''
                @ pre @ repeated ''category_cd'' (map (Sprintf_v ?lib) [''a'', ''b'']) @ post"
    by (rule query_repeated [where vs = "[''a'', ''b'']", THEN conjunct2, THEN conjunct1, rule_format]) simp
  then have w2: "\<exists>pre post. GetKeyword_urlPath ?lib ?c (Some ?pk)
        = ''http://h/keyword?'' @ pre @ ''category_cd=a&category_cd=b'' @ post"
    by (simp add: e)
  have "\<exists>pre post. GetRevisions_urlPath ?lib ?c ''x'' (Some ?pr)
        = (baseURL ?c @ ''/law_revisions'' @ ''/'' @ ''x'') @ ''?''
                @ pre @ repeated ''amendment_type'' (map (Sprintf_v ?lib) [''a'', ''b'']) @ post"
    by (rule query_repeated [where vs = "[''a'', ''b'']", THEN conjunct2, THEN conjunct2, THEN conjunct1, rule_format]) simp
  then have w3: "\<exists>pre post. GetRevisions_urlPath ?lib ?c ''x'' (Some ?pr)
        = ''http://h/law_revisions/x?'' @ pre @ ''amendment_type=a&amendment_type=b'' @ post"
    by (simp add: e)
  have "\<exists>pre post. GetRevisions_urlPath ?lib ?c ''x'' (Some ?pr)
        = (baseURL ?c @ ''/law_revisions'' @ ''/'' @ ''x'') @ ''?''
                @ pre @ repeated ''category_cd'' (map (Sprintf_v ?lib) [''a'', ''b'']) @ post"
    by (rule query_repeated [where vs = "[''a'', ''b'']", THEN conjunct2, THEN conjunct2, THEN conjunct2, THEN conjunct1, rule_format]) simp
  then have w4: "\<exists>pre post. GetRevisions_urlPath ?lib ?c ''x'' (Some ?pr)
        = ''http://h/law_revisions/x?'' @ pre @ ''category_cd=a&category_cd=b'' @ post"
    by (simp add: e)
  have "\<exists>pre post. GetRevisions_urlPath ?lib ?c ''x'' (Some ?pr)
        = (baseURL ?c @ ''/law_revisions'' @ ''/'' @ ''x'') @ ''?''
                @ pre @ repeated ''current_revision_status'' (map (Sprintf_v ?lib) [''a'', ''b'']) @ post"
    by (rule query_repeated [where vs = "[''a'', ''b'']", THEN conjunct2, THEN conjunct2, THEN conjunct2, THEN conjunct2, THEN conjunct1, rule_format]) simp
  then have w5: "\<exists>pre post. GetRevisions_urlPath ?lib ?c ''x'' (Some ?pr)
        = ''http://h/law_revisions/x?'' @ pre @ ''current_revision_status=a&current_revision_status=b'' @ post"
    by (simp add: e)
  have "\<exists>pre post. GetRevisions_urlPath ?lib ?c ''x'' (Some ?pr)
        = (baseURL ?c @ ''/law_revisions'' @ ''/'' @ ''x'') @ ''?''
                @ pre @ repeated ''mission'' (map (Sprintf_v ?lib) [''a'', ''b'']) @ post"
    by (rule query_repeated [where vs = "[''a'', ''b'']", THEN conjunct2, THEN conjunct2, THEN conjunct2, THEN conjunct2, THEN conjunct2, THEN conjunct1, rule_format]) simp
  then have w6: "\<exists>pre post. GetRevisions_urlPath ?lib ?c ''x'' (Some ?pr)
        = ''http://h/law_revisions/x?'' @ pre @ ''mission=a&mission=b'' @ post"
    by (simp add: e)
  have "\<exists>pre post. GetRevisions_urlPath ?lib ?c ''x'' (Some ?pr)
        = (baseURL ?c @ ''/law_revisions'' @ ''/'' @ ''x'') @ ''?''
                @ pre @ repeated ''repeal_status'' (map (Sprintf_v ?lib) [''a'', ''b'']) @ post"
    by (rule query_repeated [where vs = "[''a'', ''b'']", THEN conjunct2, THEN conjunct2, THEN conjunct2, THEN conjunct2, THEN conjunct2, THEN conjunct2, THEN conjunct1, rule_format]) simp
  then have w7: "\<exists>pre post. GetRevisions_urlPath ?lib ?c ''x'' (Some ?pr)
        = ''http://h/law_revisions/x?'' @ pre @ ''repeal_status=a&repeal_status=b'' @ post"
    by (simp add: e)
  have "\<exists>pre post. GetLaws_urlPath ?lib ?c (Some ?pl)
        = (baseURL ?c @ ''/laws'') @ ''?''
                @ pre @ repeated ''law_type'' (map (Sprintf_v ?lib) [''a'', ''b'']) @ post"
    by (rule query_repeated [where vs = "[''a'', ''b'']", THEN conjunct2, THEN conjunct2, THEN conjunct2, THEN conjunct2, THEN conjunct2, THEN conjunct2, THEN conjunct2, THEN conjunct1, rule_format]) simp
  then have w8: "\<exists>pre post. GetLaws_urlPath ?lib ?c (Some ?pl)
        = ''http://h/laws?'' @ pre @ ''law_type=a&law_type=b'' @ post"
    by (simp add: e)
  have "\<exists>pre post. GetLaws_urlPath ?lib ?c (Some ?pl)
        = (baseURL ?c @ ''/laws'') @ ''?''
                @ pre @ repeated ''category_cd'' (map (Sprintf_v ?lib) [''a'', ''b'']) @ post"
    by (rule query_repeated [where vs = "[''a'', ''b'']", THEN conjunct2, THEN conjunct2, THEN conjunct2, THEN conjunct2, THEN conjunct2, THEN conjunct2, THEN conjunct2, THEN conjunct2, THEN conjunct1, rule_format]) simp
  then have w9: "\<exists>pre post. GetLaws_urlPath ?lib ?c (Some ?pl)
        = ''http://h/laws?'' @ pre @ ''category_cd=a&category_cd=b'' @ post"
    by (simp add: e)
  have "\<exists>pre post. GetLaws_urlPath ?lib ?c (Some ?pl)
        = (baseURL ?c @ ''/laws'') @ ''?''
                @ pre @ repeated ''mission'' (map (Sprintf_v ?lib) [''a'', ''b'']) @ post"
    by (rule query_repeated [where vs = "[''a'', ''b'']", THEN conjunct2, THEN conjunct2, THEN conjunct2, THEN conjunct2, THEN conjunct2, THEN conjunct2, THEN conjunct2, THEN conjunct2, THEN conjunct2, THEN conjunct1, rule_format]) simp
  then have w10: "\<exists>pre post. GetLaws_urlPath ?lib ?c (Some ?pl)
        = ''http://h/laws?'' @ pre @ ''mission=a&mission=b'' @ post"
    by (simp add: e)
  have "\<exists>pre post. GetLaws_urlPath ?lib ?c (Some ?pl)
        = (baseURL ?c @ ''/laws'') @ ''?''
                @ pre @ repeated ''repeal_status'' (map (Sprintf_v ?lib) [''a'', ''b'']) @ post"
    by (rule query_repeated [where vs = "[''a'', ''b'']", THEN conjunct2, THEN conjunct2, THEN conjunct2, THEN conjunct2, THEN conjunct2, THEN conjunct2, THEN conjunct2, THEN conjunct2, THEN conjunct2, THEN conjunct2, rule_format]) simp
  then have w11: "\<exists>pre post. GetLaws_urlPath ?lib ?c (Some ?pl)
        = ''http://h/laws?'' @ pre @ ''repeal_status=a&repeal_status=b'' @ post"
    by (simp add: e)
  from w1 w2 w3 w4 w5 w6 w7 w8 w9 w10 w11 show ?thesis
    unfolding Let_def by (intro conjI)
qed

end
